theory Spec2Isabelle
  imports Main "HOL-Library.Sublist"
begin

section \<open>The upload request handler of uploadthing\<close>

text \<open>
  A shallow embedding of \<^verbatim>\<open>packages/uploadthing/src/internal/handler.ts\<close>. The file
  exists in two revisions. The later one builds an \<^verbatim>\<open>HttpRouter\<close> in
  \<^verbatim>\<open>createRequestHandler\<close>; the earlier one dispatches in \<^verbatim>\<open>handleRequest\<close> and lists
  the route configs in \<^verbatim>\<open>buildPermissionsInfoHandler\<close>. The functions
  \<^verbatim>\<open>runRouteMiddleware\<close>, \<^verbatim>\<open>handleUploadAction\<close> and \<^verbatim>\<open>handleCallbackRequest\<close> are the same
  code in both, up to how the request reaches them; the definitions follow the later
  revision.

  The handler is written against the Effect library. An effect is modelled as a function
  from the world before it runs to its exit (a failure or a value) and the world after it.
  The world holds what the claims observe: the trace of log lines, of calls into user code
  and of outbound calls, in the order they happen, and the number of readings taken so
  far from the ambient sources (the system clock, randomness). A log line is kept with
  its level and its message, without the values logged after the message.

  What the handler imports from other modules (schemas, the functions of
  \<^verbatim>\<open>@uploadthing/shared\<close>, the configuration, the HTTP client) is a parameter of the
  model, collected in the record \<open>env\<close> below; user code (input parser, middleware,
  resolver) is a function to what it returns or throws.
\<close>

subsection \<open>Errors\<close>

datatype error_code = BAD_REQUEST | NOT_FOUND | INTERNAL_SERVER_ERROR | INVALID_SERVER_CONFIG

text \<open>
  \<^verbatim>\<open>new UploadThingError({ code, message, cause })\<close>. The cause is an arbitrary value in
  the source; here it is its rendering as text.
\<close>

record UploadThingError =
  code :: error_code
  message :: string
  cause :: "string option"

text \<open>
  The failures of an effect: the tagged errors the handler matches on, the errors of the
  platform that it lets through, and defects (\<^verbatim>\<open>Effect.die\<close>).
\<close>

datatype failure =
    UTError UploadThingError
  | ParseError string
  | InvalidRouteConfig string
  | ConfigError string
  | RequestError string
  | ResponseError nat
  | Die string

subsection \<open>Data\<close>

type_synonym json = string

text \<open>
  A file of the upload payload, \<^verbatim>\<open>{ name, size, type }\<close>. The payload schema is declared
  outside this file; whatever else a client sends with a file is the extension part of the
  record, which the functions below carry as \<open>'x file_data_scheme\<close>.
\<close>

record file_data =
  name :: string
  size_f :: nat
  type_f :: string

text \<open>What \<^verbatim>\<open>runRouteMiddleware\<close> makes of a file.\<close>

record file_with_custom_id = file_data +
  customId :: "string option"
  lastModified :: int

text \<open>What \<^verbatim>\<open>handleUploadAction\<close> makes of it: an element of \<^verbatim>\<open>fileUploadRequests\<close>.\<close>

record file_upload_request = file_with_custom_id +
  contentDisposition :: string
  acl :: "string option"

text \<open>
  An element of the middleware's \<^verbatim>\<open>[UTFiles]\<close> array: every field is optional. A
  \<^verbatim>\<open>customId\<close> of \<^verbatim>\<open>null\<close> and a missing one are both \<open>None\<close>.
\<close>

record file_override =
  name_o :: "string option"
  size_o :: "nat option"
  customId_o :: "string option"
  lastModified_o :: "int option"

text \<open>The middleware's result: the reserved key \<^verbatim>\<open>[UTFiles]\<close> and the user's own data.\<close>

record metadata =
  UTFiles :: "file_override list option"
  userData :: json

record 'x UploadActionPayload =
  files :: "'x file_data_scheme list"
  input :: json

text \<open>An element of the response body of an upload action.\<close>

record presigned =
  url_p :: string
  key_p :: string
  name_p :: string
  customId_p :: "string option"

record UploadedFileData =
  key_u :: string
  rest_u :: json

record callback_payload =
  status_c :: string
  file_c :: UploadedFileData
  metadata_c :: json

record type_config =
  contentDisposition_c :: "string option"
  acl_c :: "string option"

text \<open>
  The expanded route config: an object from file type to its rules, in key order.
\<close>

type_synonym parsed_config = "(string \<times> type_config) list"

record UTToken_t =
  apiKey :: string
  appId :: string

record signed_data =
  x_ut_identifier :: string
  x_ut_file_name :: string
  x_ut_file_size :: nat
  x_ut_file_type :: string
  x_ut_slug :: string
  x_ut_custom_id :: "string option"
  x_ut_content_disposition :: string
  x_ut_acl :: "string option"

record route_options =
  presignedURLTTL :: "nat option"
  getFileHashParts :: "(file_upload_request \<Rightarrow> json) option"
  awaitServerData :: "bool option"

text \<open>What a thrown value is to \<^verbatim>\<open>error instanceof UploadThingError\<close>.\<close>

datatype thrown = ThrownUploadThingError UploadThingError | ThrownOther string

text \<open>
  A route (\<^verbatim>\<open>Uploader\<close>): the user's input parser, middleware and completion resolver are
  functions to what they return or throw.
\<close>

record 'x uploadable =
  inputParser :: "json \<Rightarrow> string + json"
  middleware :: "json \<Rightarrow> json \<Rightarrow> 'x file_data_scheme list \<Rightarrow> thrown + metadata"
  routerConfig :: json
  routeOptions :: route_options
  resolver :: "UploadedFileData \<Rightarrow> json \<Rightarrow> string + json option"

subsection \<open>Outbound requests\<close>

datatype http_body =
    NoBody
  | TextBody string
  | RouteMetadataBody "string list" metadata bool string string bool
  | CallbackResultBody string "json option"

record http_request =
  url_r :: string
  urlParams_r :: "(string \<times> string) list"
  headers_r :: "(string \<times> string) list"
  body_r :: http_body

record http_response =
  status_r :: nat
  chunks_r :: "string list"

subsection \<open>The world and effects\<close>

datatype level = Debug | Info | Warning | Error

datatype event =
    Log level string
  | InputParserCalled
  | MiddlewareCalled
  | ResolverCalled
  | KeyGenerated string
  | URLSigned string
  | HttpSent http_request
  | FiberAwaited
  | DaemonNotified

text \<open>
  The events of an upload action that leave the handler: the generation of a key and of a
  signed URL, and a request to the ingest service or to the callback URL.
\<close>

fun outbound :: "event \<Rightarrow> bool" where
  "outbound (KeyGenerated k) = True"
| "outbound (URLSigned u) = True"
| "outbound (HttpSent r) = True"
| "outbound ev = False"

record world =
  trace :: "event list"
  reads :: nat

type_synonym 'a effect = "world \<Rightarrow> (failure + 'a) \<times> world"

definition succeed :: "'a \<Rightarrow> 'a effect" where
  "succeed x = (\<lambda>w. (Inr x, w))"

definition fail :: "failure \<Rightarrow> 'a effect" where
  "fail e = (\<lambda>w. (Inl e, w))"

definition die :: "string \<Rightarrow> 'a effect" where
  "die m = fail (Die m)"

text \<open>\<^verbatim>\<open>Effect.andThen\<close>, \<^verbatim>\<open>Effect.flatMap\<close> and \<^verbatim>\<open>yield*\<close>: a failure ends the sequence.\<close>

definition andThen :: "'a effect \<Rightarrow> ('a \<Rightarrow> 'b effect) \<Rightarrow> 'b effect" where
  "andThen m f = (\<lambda>w. case m w of (Inl e, w') \<Rightarrow> (Inl e, w') | (Inr x, w') \<Rightarrow> f x w')"

definition emit :: "event \<Rightarrow> unit effect" where
  "emit ev = (\<lambda>w. (Inr (), w\<lparr>trace := trace w @ [ev]\<rparr>))"

definition logDebug :: "string \<Rightarrow> unit effect" where
  "logDebug m = emit (Log Debug m)"

definition logInfo :: "string \<Rightarrow> unit effect" where
  "logInfo m = emit (Log Info m)"

definition logWarning :: "string \<Rightarrow> unit effect" where
  "logWarning m = emit (Log Warning m)"

definition logError :: "string \<Rightarrow> unit effect" where
  "logError m = emit (Log Error m)"

text \<open>
  \<^verbatim>\<open>Effect.tryPromise({ try, catch })\<close> on user code: the event records the call, the
  outcome is what the code returned or threw, and \<^verbatim>\<open>catch\<close> turns a thrown value into
  the error.
\<close>

definition tryPromise :: "event \<Rightarrow> ('t + 'a) \<Rightarrow> ('t \<Rightarrow> UploadThingError) \<Rightarrow> 'a effect" where
  "tryPromise ev outcome catch =
     andThen (emit ev) (\<lambda>_. case outcome of
       Inl t \<Rightarrow> fail (UTError (catch t))
     | Inr x \<Rightarrow> succeed x)"

text \<open>A configuration lookup: \<^verbatim>\<open>ConfigError\<close> when it does not resolve.\<close>

definition fromConfig :: "string + 'a \<Rightarrow> 'a effect" where
  "fromConfig c = (case c of Inl m \<Rightarrow> fail (ConfigError m) | Inr x \<Rightarrow> succeed x)"

text \<open>
  \<^verbatim>\<open>Effect.forEach(xs, (x, idx) => ...)\<close> without options: one element after the other,
  the results in the order of the elements, the first failure ends it.
\<close>

fun forEachFrom :: "nat \<Rightarrow> 'a list \<Rightarrow> ('a \<Rightarrow> nat \<Rightarrow> 'b effect) \<Rightarrow> 'b list effect" where
  "forEachFrom i [] f = succeed []"
| "forEachFrom i (x # xs) f =
     andThen (f x i) (\<lambda>y. andThen (forEachFrom (Suc i) xs f) (\<lambda>ys. succeed (y # ys)))"

definition forEach :: "'a list \<Rightarrow> ('a \<Rightarrow> nat \<Rightarrow> 'b effect) \<Rightarrow> 'b list effect" where
  "forEach xs f = forEachFrom 0 xs f"

text \<open>
  Taking a reading from an ambient source: the effect returns the number of the reading.
  \<^verbatim>\<open>Date.now()\<close> is the clock at the next reading.
\<close>

definition ambient :: "nat effect" where
  "ambient = (\<lambda>w. (Inr (reads w), w\<lparr>reads := Suc (reads w)\<rparr>))"

definition Date_now :: "(nat \<Rightarrow> int) \<Rightarrow> int effect" where
  "Date_now clock = andThen ambient (\<lambda>k. succeed (clock k))"

text \<open>A number in a template literal.\<close>

fun String_nat :: "nat \<Rightarrow> string" where
  "String_nat n =
     (if n < 10 then [''0123456789'' ! n]
      else String_nat (n div 10) @ [''0123456789'' ! (n mod 10)])"

subsection \<open>\<^verbatim>\<open>runRouteMiddleware\<close>\<close>

text \<open>
  The arguments are those the source takes from \<^verbatim>\<open>opts\<close> and from the
  \<^verbatim>\<open>MiddlewareArguments\<close> service, and the clock that \<^verbatim>\<open>Date.now()\<close> reads.

  \<^verbatim>\<open>metadata[UTFiles]?.[idx]\<close> is nothing without the array and nothing beyond its end.
\<close>

definition UTFiles_at :: "metadata \<Rightarrow> nat \<Rightarrow> file_override option" where
  "UTFiles_at md idx =
     (case UTFiles md of
        None \<Rightarrow> None
      | Some ovs \<Rightarrow> if idx < length ovs then Some (ovs ! idx) else None)"

text \<open>The body of the \<^verbatim>\<open>Effect.forEach\<close> over the files.\<close>

definition reconcile ::
  "(nat \<Rightarrow> int) \<Rightarrow> metadata \<Rightarrow> 'x file_data_scheme \<Rightarrow> nat \<Rightarrow> file_with_custom_id effect" where
  "reconcile clock md file idx =
     (let theirs = UTFiles_at md idx in
      andThen (case theirs of
                 Some t \<Rightarrow> if size_o t \<noteq> Some (size_f file)
                           then logWarning ''File size mismatch. Reverting to original size''
                           else succeed ()
               | None \<Rightarrow> succeed ()) (\<lambda>_.
      andThen (case Option.bind theirs lastModified_o of
                 Some l \<Rightarrow> succeed l
               | None \<Rightarrow> Date_now clock) (\<lambda>lm.
      succeed \<lparr>name = (case Option.bind theirs name_o of Some n \<Rightarrow> n | None \<Rightarrow> name file),
               size_f = size_f file,
               type_f = type_f file,
               customId = Option.bind theirs customId_o,
               lastModified = lm\<rparr>)))"

definition runRouteMiddleware ::
  "(nat \<Rightarrow> int) \<Rightarrow> json \<Rightarrow> 'x UploadActionPayload \<Rightarrow> 'x uploadable \<Rightarrow>
   (metadata \<times> file_with_custom_id list) effect" where
  "runRouteMiddleware clock middlewareArgs json up =
     andThen (logDebug ''Running middleware'') (\<lambda>_.
     andThen (tryPromise MiddlewareCalled
                (middleware up middlewareArgs (input json) (files json))
                (\<lambda>error. case error of
                    ThrownUploadThingError e \<Rightarrow> e
                  | ThrownOther c \<Rightarrow> \<lparr>code = INTERNAL_SERVER_ERROR,
                                      message = ''Failed to run middleware'',
                                      cause = Some c\<rparr>)) (\<lambda>md.
     case UTFiles md of
       Some ovs \<Rightarrow>
         if length ovs \<noteq> length (files json) then
           (let msg = ''Expected files override to have the same length as original files, got ''
                      @ String_nat (length ovs) @ '' but expected ''
                      @ String_nat (length (files json)) in
            andThen (logError msg) (\<lambda>_.
            fail (UTError \<lparr>code = BAD_REQUEST,
                           message = ''Files override must have the same length as files'',
                           cause = Some msg\<rparr>)))
         else andThen (forEach (files json) (reconcile clock md)) (\<lambda>filesWithCustomIds.
              succeed (md, filesWithCustomIds))
     | None \<Rightarrow>
         andThen (forEach (files json) (reconcile clock md)) (\<lambda>filesWithCustomIds.
         succeed (md, filesWithCustomIds))))"

subsection \<open>The environment\<close>

datatype fiber = MetadataRegistration | CallbackCompletion

datatype handleDaemon = Void | Await | Function

datatype response_body =
    Null
  | Presigneds "presigned list"
  | RouterConfig "(string \<times> parsed_config) list"
  | Formatted json

record response =
  status :: nat
  headers_s :: "(string \<times> string) list"
  body_s :: response_body

record request =
  headers :: "(string \<times> string) list"
  params :: "(string \<times> string) list"
  url :: string
  bodyText :: "string option"

text \<open>A file router: an object from slug to route, in the order of its keys.\<close>

type_synonym 'x router = "(string \<times> 'x uploadable) list"

record 'x RouteHandlerOptions =
  router :: "'x router"
  handleDaemonPromise :: "handleDaemon option"

record handler_output =
  body :: response_body
  fiber :: "fiber option"

text \<open>
  What the handler takes from outside this file: the package version, the resolved
  configuration, the schemas of \<^verbatim>\<open>./types\<close> and \<^verbatim>\<open>./shared-schemas\<close>, the functions of
  \<^verbatim>\<open>@uploadthing/shared\<close>, \<^verbatim>\<open>./route-config\<close> and \<^verbatim>\<open>./error-formatter\<close>, the HTTP
  client, the clock, and the order in which the runtime completes concurrent fibers. Each is
  a parameter. \<^verbatim>\<open>generateKey\<close> and \<^verbatim>\<open>generateSignedURL\<close> take the number of an ambient
  reading, since a key has entropy and a signed URL an expiry. The two decoders of a
  request body go from the text of the body to the value, or to the failure: a
  \<^verbatim>\<open>RequestError\<close> for a text that is not JSON, a \<^verbatim>\<open>ParseError\<close> for JSON that the schema
  refuses.
\<close>

record 'x env =
  version :: string
  clock :: "nat \<Rightarrow> int"
  IsDevelopment :: "string + bool"
  UTToken :: "string + UTToken_t"
  IngestUrl :: "string + string"
  callbackUrl :: "string option"
  MiddlewareArguments :: json
  UploadThingHook :: "string list"
  ActionType :: "string list"
  decodeUploadActionPayload :: "string \<Rightarrow> failure + 'x UploadActionPayload"
  decodeCallbackPayload :: "string \<Rightarrow> failure + callback_payload"
  decodeMetadataFetchStreamPart :: "string \<Rightarrow> string + string \<times> string"
  decodeMetadataFetchResponse :: "string \<Rightarrow> string + json"
  decodeCallbackResultResponse :: "string \<Rightarrow> string + json"
  fillInputRouteConfig :: "json \<Rightarrow> string + parsed_config"
  assertFilesMeetConfig :: "'x file_data_scheme list \<Rightarrow> parsed_config \<Rightarrow> string \<times> string + unit"
  getTypeFromFileName :: "string \<Rightarrow> string list \<Rightarrow> string + string"
  generateKey :: "nat \<Rightarrow> file_upload_request \<Rightarrow> (file_upload_request \<Rightarrow> json) option \<Rightarrow> string"
  generateSignedURL :: "nat \<Rightarrow> string \<Rightarrow> string \<Rightarrow> nat option \<Rightarrow> signed_data \<Rightarrow> string"
  verifySignature :: "string \<Rightarrow> string option \<Rightarrow> string \<Rightarrow> bool"
  originAndPathname :: "string \<Rightarrow> string option"
  httpClient :: "http_request \<Rightarrow> string + http_response"
  schedule :: "nat list"
  extractRouterConfig :: "'x router \<Rightarrow> failure + (string \<times> parsed_config) list"
  formatError :: "UploadThingError \<Rightarrow> 'x router \<Rightarrow> json"
  getStatusCodeFromError :: "UploadThingError \<Rightarrow> nat"

subsection \<open>More of the Effect library\<close>

text \<open>\<^verbatim>\<open>Effect.tapError\<close>: run an effect on the failure and keep the failure.\<close>

definition tapError :: "'a effect \<Rightarrow> (failure \<Rightarrow> unit effect) \<Rightarrow> 'a effect" where
  "tapError m f = (\<lambda>w. case m w of
       (Inl e, w') \<Rightarrow> (case f e w' of (Inl e', w'') \<Rightarrow> (Inl e', w'') | (Inr _, w'') \<Rightarrow> (Inl e, w''))
     | (Inr x, w') \<Rightarrow> (Inr x, w'))"

text \<open>\<^verbatim>\<open>Effect.ignoreLogged\<close>: every failure and defect is logged at debug level and dropped.\<close>

definition ignoreLogged :: "'a effect \<Rightarrow> unit effect" where
  "ignoreLogged m = (\<lambda>w. case m w of
       (Inl e, w') \<Rightarrow> logDebug ''An error was silently ignored because it is not anticipated to be useful'' w'
     | (Inr x, w') \<Rightarrow> (Inr (), w'))"

text \<open>
  \<^verbatim>\<open>Effect.forkDaemon\<close>: the parent gets the fiber and goes on whatever the exit of the
  child. The child runs concurrently with the parent; the model runs it to its end at the
  fork, which is one of the interleavings.
\<close>

definition forkDaemon :: "fiber \<Rightarrow> unit effect \<Rightarrow> fiber effect" where
  "forkDaemon fb m = (\<lambda>w. case m w of (_, w') \<Rightarrow> (Inr fb, w'))"

text \<open>
  \<^verbatim>\<open>Effect.forEach(xs, f, { concurrency: "unbounded" })\<close>: one fiber for each element, each
  writing its result at the index of its element. The fibers complete in an order the
  runtime chooses. Any list \<open>sched\<close> stands for such an order: the indices it names, in
  its order, then the others in theirs. A fiber that fails ends the whole. A fiber runs
  from its start to its end in one piece; the order of the fibers decides which ambient
  readings each of them takes and where its events stand in the trace.
\<close>

definition completionOrder :: "nat list \<Rightarrow> nat \<Rightarrow> nat list" where
  "completionOrder sched n =
     remdups (filter (\<lambda>i. i < n) sched) @ filter (\<lambda>i. i \<notin> set sched) [0..<n]"

fun runFibers :: "nat list \<Rightarrow> 'a list \<Rightarrow> ('a \<Rightarrow> 'b effect) \<Rightarrow> 'b option list \<Rightarrow> 'b option list effect" where
  "runFibers [] xs f acc = succeed acc"
| "runFibers (i # js) xs f acc =
     (if i < length xs
      then andThen (f (xs ! i)) (\<lambda>y. runFibers js xs f (acc[i := Some y]))
      else runFibers js xs f acc)"

definition forEachUnbounded :: "nat list \<Rightarrow> 'a list \<Rightarrow> ('a \<Rightarrow> 'b effect) \<Rightarrow> 'b list effect" where
  "forEachUnbounded sched xs f =
     andThen (runFibers (completionOrder sched (length xs)) xs f (replicate (length xs) None)) (\<lambda>acc.
     case those acc of Some ys \<Rightarrow> succeed ys | None \<Rightarrow> die ''fiber without a result'')"

subsection \<open>The platform\<close>

text \<open>
  \<^verbatim>\<open>HttpServerRequest.schemaBodyJson(schema)\<close>: read the body as JSON, then decode it.
  A body that cannot be read is a \<^verbatim>\<open>RequestError\<close>, and so is one that is not JSON;
  \<^verbatim>\<open>POST\<close> catches neither.
\<close>

definition schemaBodyJson :: "(string \<Rightarrow> failure + 'a) \<Rightarrow> request \<Rightarrow> 'a effect" where
  "schemaBodyJson decode req =
     (case bodyText req of
        None \<Rightarrow> fail (RequestError ''body'')
      | Some t \<Rightarrow> (case decode t of Inl e \<Rightarrow> fail e | Inr v \<Rightarrow> succeed v))"

text \<open>Handing a request to the \<^verbatim>\<open>HttpClient\<close>; \<^verbatim>\<open>HttpClient.filterStatusOk\<close>.\<close>

definition execute :: "'x env \<Rightarrow> http_request \<Rightarrow> http_response effect" where
  "execute env r =
     andThen (emit (HttpSent r)) (\<lambda>_.
     case httpClient env r of Inl m \<Rightarrow> fail (RequestError m) | Inr res \<Rightarrow> succeed res)"

definition filterStatusOk :: "'x env \<Rightarrow> http_request \<Rightarrow> http_response effect" where
  "filterStatusOk env r =
     andThen (execute env r) (\<lambda>res.
     if 200 \<le> status_r res \<and> status_r res < 300 then succeed res
     else fail (ResponseError (status_r res)))"

text \<open>\<^verbatim>\<open>HttpClientResponse.schemaBodyJsonScoped(schema)\<close> on the response of a request.\<close>

definition schemaBodyJsonScoped :: "(string \<Rightarrow> string + 'a) \<Rightarrow> http_response effect \<Rightarrow> 'a effect" where
  "schemaBodyJsonScoped decode m =
     andThen m (\<lambda>res.
     case decode (concat (chunks_r res)) of Inl e \<Rightarrow> fail (ParseError e) | Inr v \<Rightarrow> succeed v)"

definition HttpServerResponse_json :: "response_body \<Rightarrow> nat \<Rightarrow> response" where
  "HttpServerResponse_json b st = \<lparr>status = st, headers_s = [], body_s = b\<rparr>"

text \<open>\<^verbatim>\<open>Effect.tap\<close>: run an effect on the value and keep the value.\<close>

definition tap :: "'a effect \<Rightarrow> ('a \<Rightarrow> unit effect) \<Rightarrow> 'a effect" where
  "tap m f = andThen m (\<lambda>x. andThen (f x) (\<lambda>_. succeed x))"

subsection \<open>\<^verbatim>\<open>handleUploadAction\<close>\<close>

text \<open>
  The body of the \<^verbatim>\<open>Effect.forEach\<close> over \<^verbatim>\<open>filesWithCustomIds\<close>. The source turns
  the two errors of \<^verbatim>\<open>getTypeFromFileName\<close> into defects after the loop; the loop ends at
  the first of them, so the defect is raised here.
\<close>

definition toFileUploadRequest ::
  "'x env \<Rightarrow> parsed_config \<Rightarrow> file_with_custom_id \<Rightarrow> nat \<Rightarrow> file_upload_request effect" where
  "toFileUploadRequest env parsedConfig file idx =
     (case getTypeFromFileName env (name file) (map fst parsedConfig) of
        Inl e \<Rightarrow> die e
      | Inr type \<Rightarrow>
          succeed \<lparr>name = name file,
                   size_f = size_f file,
                   type_f = type_f file,
                   customId = customId file,
                   lastModified = lastModified file,
                   contentDisposition =
                     (case Option.bind (map_of parsedConfig type) contentDisposition_c of
                        Some d \<Rightarrow> d | None \<Rightarrow> ''inline''),
                   acl = Option.bind (map_of parsedConfig type) acl_c\<rparr>)"

text \<open>The body of the concurrent \<^verbatim>\<open>Effect.forEach\<close> over \<^verbatim>\<open>fileUploadRequests\<close>.\<close>

definition presignedUrl ::
  "'x env \<Rightarrow> route_options \<Rightarrow> UTToken_t \<Rightarrow> string \<Rightarrow> file_upload_request \<Rightarrow> (string \<times> string) effect" where
  "presignedUrl env ro tok slug file =
     andThen ambient (\<lambda>k.
     let key = generateKey env k file (getFileHashParts ro) in
     andThen (emit (KeyGenerated key)) (\<lambda>_.
     andThen (fromConfig (IngestUrl env)) (\<lambda>baseUrl.
     andThen ambient (\<lambda>k'.
     let url = generateSignedURL env k' (baseUrl @ ''/'' @ key) (apiKey tok) (presignedURLTTL ro)
                 \<lparr>x_ut_identifier = appId tok,
                  x_ut_file_name = name file,
                  x_ut_file_size = size_f file,
                  x_ut_file_type = type_f file,
                  x_ut_slug = slug,
                  x_ut_custom_id = customId file,
                  x_ut_content_disposition = contentDisposition file,
                  x_ut_acl = acl file\<rparr> in
     andThen (emit (URLSigned url)) (\<lambda>_.
     succeed (url, key))))))"

definition metadataRequest ::
  "'x env \<Rightarrow> string \<Rightarrow> UTToken_t \<Rightarrow> string \<Rightarrow> string \<Rightarrow> http_body \<Rightarrow> http_response effect" where
  "metadataRequest env baseUrl tok beAdapter fePackage b =
     tapError
       (tap (filterStatusOk env
              \<lparr>url_r = baseUrl @ ''/route-metadata'',
               urlParams_r = [],
               headers_r = [(''x-uploadthing-api-key'', apiKey tok),
                            (''x-uploadthing-version'', version env),
                            (''x-uploadthing-be-adapter'', beAdapter),
                            (''x-uploadthing-fe-package'', fePackage)],
               body_r = b\<rparr>)
            (\<lambda>res. logDebug ''Registerred metadata''))
       (\<lambda>err. case err of
          ResponseError st \<Rightarrow> logError (''Failed to register metadata ('' @ String_nat st @ '')'')
        | _ \<Rightarrow> logError ''Failed to register metadata'')"

text \<open>
  The development branch of the daemon: every record of the streamed response is decoded
  and sent to the callback URL.
\<close>

definition simulateCallbacks :: "'x env \<Rightarrow> http_request \<Rightarrow> http_response effect \<Rightarrow> unit effect" where
  "simulateCallbacks env callbackRequest m =
     andThen m (\<lambda>res.
     andThen (forEach (chunks_r res) (\<lambda>part idx.
       case decodeMetadataFetchStreamPart env part of
         Inl e \<Rightarrow> fail (ParseError e)
       | Inr (payload, signature) \<Rightarrow>
           ignoreLogged
             (andThen (execute env
                        (callbackRequest
                           \<lparr>headers_r := headers_r callbackRequest
                                          @ [(''x-uploadthing-signature'', signature)],
                            body_r := TextBody payload\<rparr>)) (\<lambda>_.
              logInfo ''Successfully simulated callback'')))) (\<lambda>_.
     succeed ()))"

text \<open>
  \<^verbatim>\<open>presignedUrls.map((p, i) => ...)\<close> reads \<^verbatim>\<open>fileUploadRequests[i]\<close>; beyond the end
  of that array the read of \<^verbatim>\<open>.name\<close> throws.
\<close>

definition presigneds_of ::
  "(string \<times> string) list \<Rightarrow> file_upload_request list \<Rightarrow> presigned list effect" where
  "presigneds_of presignedUrls fileUploadRequests =
     (if length presignedUrls \<le> length fileUploadRequests
      then succeed (map (\<lambda>(p, i). \<lparr>url_p = fst p,
                                   key_p = snd p,
                                   name_p = name (fileUploadRequests ! i),
                                   customId_p = customId (fileUploadRequests ! i)\<rparr>)
                        (zip presignedUrls [0..<length presignedUrls]))
      else die ''TypeError: Cannot read properties of undefined'')"

definition handleUploadAction ::
  "'x env \<Rightarrow> request \<Rightarrow> 'x uploadable \<Rightarrow> string \<Rightarrow> string \<Rightarrow> string \<Rightarrow> handler_output effect" where
  "handleUploadAction env req up fePackage beAdapter slug =
     andThen (schemaBodyJson (decodeUploadActionPayload env) req) (\<lambda>json.
     andThen (logDebug ''Handling upload request with input:'') (\<lambda>_.
     andThen (logDebug ''Parsing user input'') (\<lambda>_.
     andThen (tryPromise InputParserCalled (inputParser up (input json))
                (\<lambda>error. \<lparr>code = BAD_REQUEST, message = ''Invalid input'', cause = Some error\<rparr>))
       (\<lambda>parsedInput.
     andThen (logDebug ''Input parsed successfully'') (\<lambda>_.
     andThen (runRouteMiddleware (clock env) (MiddlewareArguments env)
                \<lparr>files = files json, input = parsedInput\<rparr> up) (\<lambda>(md, filesWithCustomIds).
     andThen (logDebug ''Parsing route config'') (\<lambda>_.
     andThen (case fillInputRouteConfig env (routerConfig up) of
                Inl err \<Rightarrow> fail (UTError \<lparr>code = BAD_REQUEST,
                                          message = ''Invalid route config'',
                                          cause = Some err\<rparr>)
              | Inr c \<Rightarrow> succeed c) (\<lambda>parsedConfig.
     andThen (logDebug ''Route config parsed successfully'') (\<lambda>_.
     andThen (logDebug ''Validating files meet the config requirements'') (\<lambda>_.
     andThen (case assertFilesMeetConfig env (files json) parsedConfig of
                Inl (tag, reason) \<Rightarrow> fail (UTError \<lparr>code = BAD_REQUEST,
                                                    message = ''Invalid config: '' @ tag,
                                                    cause = Some reason\<rparr>)
              | Inr _ \<Rightarrow> succeed ()) (\<lambda>_.
     andThen (forEach filesWithCustomIds (toFileUploadRequest env parsedConfig))
       (\<lambda>fileUploadRequests.
     andThen (fromConfig (UTToken env)) (\<lambda>tok.
     andThen (forEachUnbounded (schedule env) fileUploadRequests
                (presignedUrl env (routeOptions up) tok slug)) (\<lambda>presignedUrls.
     andThen (case originAndPathname env (url req) of
                None \<Rightarrow> die ''TypeError: Invalid URL''
              | Some u \<Rightarrow> succeed u) (\<lambda>requestUrl.
     let callbackRequest =
           \<lparr>url_r = (case callbackUrl env of Some c \<Rightarrow> c | None \<Rightarrow> requestUrl),
            urlParams_r = [(''slug'', slug)],
            headers_r = [(''uploadthing-hook'', ''callback'')],
            body_r = NoBody\<rparr> in
     andThen (fromConfig (IsDevelopment env)) (\<lambda>isDev.
     andThen (fromConfig (IngestUrl env)) (\<lambda>baseUrl.
     let registration =
           metadataRequest env baseUrl tok beAdapter fePackage
             (RouteMetadataBody (map snd presignedUrls) md isDev (url_r callbackRequest) slug
                (case awaitServerData (routeOptions up) of Some a \<Rightarrow> a | None \<Rightarrow> False)) in
     andThen (forkDaemon MetadataRegistration
                (ignoreLogged
                   (if isDev then simulateCallbacks env callbackRequest registration
                    else andThen (schemaBodyJsonScoped (decodeMetadataFetchResponse env) registration)
                           (\<lambda>_. succeed ())))) (\<lambda>fb.
     andThen (presigneds_of presignedUrls fileUploadRequests) (\<lambda>presigneds.
     andThen (logInfo ''Sending presigned URLs to client'') (\<lambda>_.
     succeed \<lparr>body = Presigneds presigneds, fiber = Some fb\<rparr>))))))))))))))))))))"

subsection \<open>\<^verbatim>\<open>handleCallbackRequest\<close>\<close>

text \<open>The detached task: \<^verbatim>\<open>onUploadComplete\<close>, then the result goes to the ingest service.\<close>

definition callbackDaemon ::
  "'x env \<Rightarrow> 'x uploadable \<Rightarrow> string \<Rightarrow> string \<Rightarrow> UTToken_t \<Rightarrow> callback_payload \<Rightarrow> unit effect" where
  "callbackDaemon env up fePackage beAdapter tok requestInput =
     andThen (tryPromise ResolverCalled
                (resolver up (file_c requestInput) (metadata_c requestInput))
                (\<lambda>error. \<lparr>code = INTERNAL_SERVER_ERROR,
                           message = ''Failed to run onUploadComplete. You probably shouldn't be throwing errors here.'',
                           cause = Some error\<rparr>)) (\<lambda>serverData.
     andThen (logDebug '''onUploadComplete' callback finished. Sending response to UploadThing:'') (\<lambda>_.
     andThen (fromConfig (IngestUrl env)) (\<lambda>baseUrl.
     andThen (schemaBodyJsonScoped (decodeCallbackResultResponse env)
                (tapError
                   (filterStatusOk env
                      \<lparr>url_r = baseUrl @ ''/callback-result'',
                       urlParams_r = [],
                       headers_r = [(''x-uploadthing-api-key'', apiKey tok),
                                    (''x-uploadthing-version'', version env),
                                    (''x-uploadthing-be-adapter'', beAdapter),
                                    (''x-uploadthing-fe-package'', fePackage)],
                       body_r = CallbackResultBody (key_u (file_c requestInput)) serverData\<rparr>)
                   (\<lambda>err. case err of
                      ResponseError st \<Rightarrow>
                        logError (''Failed to register metadata ('' @ String_nat st @ '')'')
                    | _ \<Rightarrow> succeed ()))) (\<lambda>_.
     logInfo ''Sent callback result to UploadThing''))))"

definition handleCallbackRequest ::
  "'x env \<Rightarrow> request \<Rightarrow> 'x uploadable \<Rightarrow> string \<Rightarrow> string \<Rightarrow> handler_output effect" where
  "handleCallbackRequest env req up fePackage beAdapter =
     andThen (fromConfig (UTToken env)) (\<lambda>tok.
     andThen (case bodyText req of
                None \<Rightarrow> fail (RequestError ''body'')
              | Some t \<Rightarrow> succeed t) (\<lambda>payload.
     let verified = verifySignature env payload
                      (map_of (headers req) ''x-uploadthing-signature'') (apiKey tok) in
     andThen (logDebug ''Signature verified:'') (\<lambda>_.
     if \<not> verified then
       andThen (logError ''Invalid signature'') (\<lambda>_.
       fail (UTError \<lparr>code = BAD_REQUEST, message = ''Invalid signature'', cause = None\<rparr>))
     else
       andThen (schemaBodyJson (decodeCallbackPayload env) req) (\<lambda>requestInput.
       andThen (logDebug ''Handling callback request with input:'') (\<lambda>_.
       andThen (forkDaemon CallbackCompletion
                  (ignoreLogged (callbackDaemon env up fePackage beAdapter tok requestInput)))
         (\<lambda>fb.
       succeed \<lparr>body = Null, fiber = Some fb\<rparr>))))))"

subsection \<open>\<^verbatim>\<open>createRequestHandler\<close>\<close>

text \<open>
  \<^verbatim>\<open>HttpServerRequest.schemaHeaders\<close> with the struct of the source: the hook is optional
  and one of the literals of \<^verbatim>\<open>UploadThingHook\<close>, the package defaults to
  \<^verbatim>\<open>"unknown"\<close>, the version to \<^verbatim>\<open>pkgJson.version\<close>.
\<close>

definition schemaHeaders :: "'x env \<Rightarrow> request \<Rightarrow> (string option \<times> string \<times> string) effect" where
  "schemaHeaders env req =
     (let fePackage = (case map_of (headers req) ''x-uploadthing-package'' of
                         Some p \<Rightarrow> p | None \<Rightarrow> ''unknown'');
          clientVersion = (case map_of (headers req) ''x-uploadthing-version'' of
                             Some v \<Rightarrow> v | None \<Rightarrow> version env) in
      case map_of (headers req) ''uploadthing-hook'' of
        None \<Rightarrow> succeed (None, fePackage, clientVersion)
      | Some h \<Rightarrow> if h \<in> set (UploadThingHook env)
                  then succeed (Some h, fePackage, clientVersion)
                  else fail (ParseError ''uploadthing-hook''))"

text \<open>\<^verbatim>\<open>HttpRouter.schemaParams\<close>: the slug is required, the action type optional.\<close>

definition schemaParams :: "'x env \<Rightarrow> request \<Rightarrow> (string \<times> string option) effect" where
  "schemaParams env req =
     (case map_of (params req) ''slug'' of
        None \<Rightarrow> fail (ParseError ''slug'')
      | Some slug \<Rightarrow>
          (case map_of (params req) ''actionType'' of
             None \<Rightarrow> succeed (slug, None)
           | Some a \<Rightarrow> if a \<in> set (ActionType env)
                       then succeed (slug, Some a)
                       else fail (ParseError ''actionType'')))"

text \<open>
  \<^verbatim>\<open>opts.router[slug]\<close>. The router is a plain object, so the read finds the route of an
  own key, and for a name that every object inherits it finds the inherited value, which
  is not a route but is truthy.
\<close>

definition Object_prototype :: "string list" where
  "Object_prototype =
     [''constructor'', ''__defineGetter__'', ''__defineSetter__'', ''hasOwnProperty'',
      ''__lookupGetter__'', ''__lookupSetter__'', ''isPrototypeOf'', ''propertyIsEnumerable'',
      ''toString'', ''valueOf'', ''__proto__'', ''toLocaleString'']"

datatype 'x property = Own "'x uploadable" | Inherited | Absent

definition router_at :: "'x router \<Rightarrow> string \<Rightarrow> 'x property" where
  "router_at r slug =
     (case map_of r slug of
        Some up \<Rightarrow> Own up
      | None \<Rightarrow> if slug \<in> set Object_prototype then Inherited else Absent)"

text \<open>
  An inherited value in the place of a route. It has no \<^verbatim>\<open>_def\<close>: the upload handler gets
  as far as the read of \<^verbatim>\<open>uploadable._def.inputParser\<close>, which throws inside the generator,
  a defect. It has no \<^verbatim>\<open>resolver\<close>: the callback handler reads nothing else of it, and the
  call throws inside \<^verbatim>\<open>Effect.tryPromise\<close>.
\<close>

definition handleUploadAction_inherited :: "'x env \<Rightarrow> request \<Rightarrow> handler_output effect" where
  "handleUploadAction_inherited env req =
     andThen (schemaBodyJson (decodeUploadActionPayload env) req) (\<lambda>json.
     andThen (logDebug ''Handling upload request with input:'') (\<lambda>_.
     andThen (logDebug ''Parsing user input'') (\<lambda>_.
     die ''TypeError: Cannot read properties of undefined (reading 'inputParser')'')))"

definition without_resolver :: "'x uploadable" where
  "without_resolver =
     \<lparr>inputParser = (\<lambda>i. Inl ''TypeError''),
      middleware = (\<lambda>a i fs. Inl (ThrownOther ''TypeError'')),
      routerConfig = [],
      routeOptions = \<lparr>presignedURLTTL = None, getFileHashParts = None, awaitServerData = None\<rparr>,
      resolver = (\<lambda>f m. Inl ''TypeError: uploadable.resolver is not a function'')\<rparr>"

text \<open>The generator of \<^verbatim>\<open>POST\<close> from the read of the route parameters on.\<close>

definition dispatch ::
  "'x env \<Rightarrow> 'x RouteHandlerOptions \<Rightarrow> string \<Rightarrow> request \<Rightarrow> string option \<Rightarrow> string \<Rightarrow> response effect" where
  "dispatch env opts beAdapter req uploadthingHook fePackage =
     andThen (schemaParams env req) (\<lambda>(slug, actionType).
     case router_at (router opts) slug of
       Absent \<Rightarrow>
         (let msg = ''No file route found for slug '' @ slug in
          andThen (logError msg) (\<lambda>_.
          fail (UTError \<lparr>code = NOT_FOUND, message = msg, cause = None\<rparr>)))
     | uploadable \<Rightarrow>
         andThen (if actionType = Some ''upload'' \<and> uploadthingHook = None
                  then (case uploadable of
                          Own up \<Rightarrow> handleUploadAction env req up fePackage beAdapter slug
                        | _ \<Rightarrow> handleUploadAction_inherited env req)
                  else if actionType = None \<and> uploadthingHook = Some ''callback''
                  then (case uploadable of
                          Own up \<Rightarrow> handleCallbackRequest env req up fePackage beAdapter
                        | _ \<Rightarrow> handleCallbackRequest env req without_resolver fePackage beAdapter)
                  else succeed \<lparr>body = Null, fiber = None\<rparr>) (\<lambda>out.
         andThen (case fiber out of
                    None \<Rightarrow> succeed ()
                  | Some fb \<Rightarrow>
                      (case handleDaemonPromise opts of
                         Some Void \<Rightarrow> succeed ()
                       | Some Await \<Rightarrow> emit FiberAwaited
                       | Some Function \<Rightarrow> emit DaemonNotified
                       | None \<Rightarrow> succeed ())) (\<lambda>_.
         succeed (HttpServerResponse_json (body out) 200))))"

text \<open>The generator of \<^verbatim>\<open>POST\<close>, before \<^verbatim>\<open>Effect.catchTags\<close>.\<close>

definition POST_gen ::
  "'x env \<Rightarrow> 'x RouteHandlerOptions \<Rightarrow> string \<Rightarrow> request \<Rightarrow> response effect" where
  "POST_gen env opts beAdapter req =
     andThen (schemaHeaders env req) (\<lambda>(uploadthingHook, fePackage, clientVersion).
     if clientVersion \<noteq> version env then
       (let msg = ''Server version: '' @ version env @ '', Client version: '' @ clientVersion in
        andThen (logError msg) (\<lambda>_.
        fail (UTError \<lparr>code = BAD_REQUEST,
                       message = ''Client version mismatch'',
                       cause = Some msg\<rparr>)))
     else dispatch env opts beAdapter req uploadthingHook fePackage)"

text \<open>The two handlers of \<^verbatim>\<open>Effect.catchTags\<close> on \<^verbatim>\<open>POST\<close>; other failures pass.\<close>

definition catchTags :: "'x env \<Rightarrow> 'x RouteHandlerOptions \<Rightarrow> response effect \<Rightarrow> response effect" where
  "catchTags env opts m = (\<lambda>w. case m w of
       (Inl (ParseError e), w') \<Rightarrow>
         (Inr (HttpServerResponse_json
                 (Formatted (formatError env \<lparr>code = BAD_REQUEST,
                                              message = ''Invalid input'',
                                              cause = Some e\<rparr> (router opts))) 400), w')
     | (Inl (UTError e), w') \<Rightarrow>
         (Inr (HttpServerResponse_json
                 (Formatted (formatError env e (router opts))) (getStatusCodeFromError env e)), w')
     | (r, w') \<Rightarrow> (r, w'))"

definition POST :: "'x env \<Rightarrow> 'x RouteHandlerOptions \<Rightarrow> string \<Rightarrow> request \<Rightarrow> response effect" where
  "POST env opts beAdapter req = catchTags env opts (POST_gen env opts beAdapter req)"

definition appendResponseHeaders :: "'x env \<Rightarrow> response effect \<Rightarrow> response effect" where
  "appendResponseHeaders env m =
     andThen m (\<lambda>res.
     succeed (res\<lparr>headers_s := headers_s res @ [(''x-uploadthing-version'', version env)]\<rparr>))"

text \<open>The router that \<^verbatim>\<open>createRequestHandler\<close> returns: its two routes.\<close>

record HttpRouter =
  get :: "response effect"
  post :: "request \<Rightarrow> response effect"

definition createRequestHandler ::
  "'x env \<Rightarrow> 'x RouteHandlerOptions \<Rightarrow> string \<Rightarrow> HttpRouter effect" where
  \<open>createRequestHandler env opts beAdapter =
     andThen (fromConfig (IsDevelopment env)) (\<lambda>isDevelopment.
     andThen (\<lambda>w. (extractRouterConfig env (router opts), w)) (\<lambda>routerConfig.
     let handleDaemon = handleDaemonPromise opts in
     if isDevelopment \<and> handleDaemon = Some Await then
       fail (UTError \<lparr>code = INVALID_SERVER_CONFIG,
                      message = ''handleDaemonPromise: "await" is forbidden in development.'',
                      cause = None\<rparr>)
     else
       succeed \<lparr>get = appendResponseHeaders env
                        (succeed (HttpServerResponse_json (RouterConfig routerConfig) 200)),
                post = (\<lambda>req. appendResponseHeaders env (POST env opts beAdapter req))\<rparr>))\<close>

subsection \<open>The earlier revision: \<^verbatim>\<open>handleRequest\<close> and \<^verbatim>\<open>buildPermissionsInfoHandler\<close>\<close>

text \<open>
  \<^verbatim>\<open>handleRequest\<close> reads the action and the hook from the \<^verbatim>\<open>RequestInput\<close> service and
  picks one of the two handlers, here its last two arguments.
\<close>

definition handleRequest ::
  "string option \<Rightarrow> string option \<Rightarrow> handler_output effect \<Rightarrow> handler_output effect \<Rightarrow>
   (bool \<times> handler_output) effect" where
  "handleRequest action hook handleCallbackRequest_v1 handleUploadAction_v1 =
     andThen (if hook = Some ''callback'' then handleCallbackRequest_v1
              else if action = Some ''upload'' then handleUploadAction_v1
              else die ''Unreachable'') (\<lambda>output.
     succeed (True, output))"

text \<open>
  \<^verbatim>\<open>buildPermissionsInfoHandler(opts)()\<close>: \<^verbatim>\<open>Effect.runSync\<close> throws when
  \<^verbatim>\<open>fillInputRouteConfig\<close> fails.
\<close>

definition buildPermissionsInfoHandler ::
  "'x env \<Rightarrow> 'x RouteHandlerOptions \<Rightarrow> (string \<times> parsed_config) list effect" where
  "buildPermissionsInfoHandler env opts =
     forEach (map fst (router opts)) (\<lambda>slug idx.
       case map_of (router opts) slug of
         None \<Rightarrow> die ''TypeError: Cannot read properties of undefined''
       | Some route \<Rightarrow>
           (case fillInputRouteConfig env (routerConfig route) of
              Inl e \<Rightarrow> die e
            | Inr config \<Rightarrow> succeed (slug, config)))"

text \<open>The exits of \<open>n\<close> calls of a handler, one after the other.\<close>

fun exits :: "nat \<Rightarrow> 'a effect \<Rightarrow> world \<Rightarrow> (failure + 'a) list" where
  "exits 0 m w = []"
| "exits (Suc n) m w = (case m w of (r, w') \<Rightarrow> r # exits n m w')"

subsection \<open>A deployment to evaluate on\<close>

text \<open>
  One route, \<^verbatim>\<open>docs\<close>, taking images and PDFs; the middleware returns the overrides it
  is given. Its clients send the time of the last modification with a file. The runtime
  completes the fiber of the second file before that of the first.
\<close>

record FileUploadData = file_data +
  lastModified_client :: "int option"

definition ex_file_a :: FileUploadData where
  "ex_file_a = \<lparr>name = ''a.png'', size_f = 1000000, type_f = ''image/png'',
                 lastModified_client = Some 1\<rparr>"

definition ex_file_b :: FileUploadData where
  "ex_file_b = \<lparr>name = ''b.pdf'', size_f = 2000, type_f = ''application/pdf'',
                 lastModified_client = None\<rparr>"

definition ex_payload :: "unit FileUploadData_ext UploadActionPayload" where
  "ex_payload = \<lparr>files = [ex_file_a, ex_file_b], input = ''null''\<rparr>"

definition ex_config :: parsed_config where
  "ex_config = [(''image'', \<lparr>contentDisposition_c = Some ''inline'', acl_c = None\<rparr>),
                (''pdf'', \<lparr>contentDisposition_c = Some ''attachment'', acl_c = Some ''private''\<rparr>)]"

definition ex_overrides :: "file_override list" where
  "ex_overrides =
     [\<lparr>name_o = None, size_o = None, customId_o = Some ''id-a'', lastModified_o = None\<rparr>,
      \<lparr>name_o = Some ''renamed.pdf'', size_o = Some 1, customId_o = None, lastModified_o = Some 42\<rparr>]"

definition ex_route :: "file_override list option \<Rightarrow> unit FileUploadData_ext uploadable" where
  "ex_route ovs =
     \<lparr>inputParser = Inr,
      middleware = (\<lambda>args inp fs. Inr \<lparr>UTFiles = ovs, userData = ''{}''\<rparr>),
      routerConfig = ''{image: {}, pdf: {}}'',
      routeOptions = \<lparr>presignedURLTTL = None, getFileHashParts = None, awaitServerData = None\<rparr>,
      resolver = (\<lambda>f m. Inr None)\<rparr>"

definition ex_env :: "unit FileUploadData_ext env" where
  "ex_env =
     \<lparr>version = ''7.0.0'',
      clock = (\<lambda>k. 1700000000000 + int k),
      IsDevelopment = Inr False,
      UTToken = Inr \<lparr>apiKey = ''sk_live_1'', appId = ''app1''\<rparr>,
      IngestUrl = Inr ''https://ingest.example'',
      callbackUrl = None,
      MiddlewareArguments = ''{}'',
      UploadThingHook = [''callback'', ''error''],
      ActionType = [''upload''],
      decodeUploadActionPayload =
        (\<lambda>t. if t = ''files: a.png, b.pdf'' then Inr ex_payload
             else if t = ''{}'' then Inl (ParseError ''files'')
             else Inl (RequestError ''Decode'')),
      decodeCallbackPayload =
        (\<lambda>t. Inr \<lparr>status_c = ''uploaded'', file_c = \<lparr>key_u = ''key0'', rest_u = t\<rparr>, metadata_c = ''{}''\<rparr>),
      decodeMetadataFetchStreamPart = (\<lambda>t. Inl ''payload''),
      decodeMetadataFetchResponse = Inr,
      decodeCallbackResultResponse = Inr,
      fillInputRouteConfig = (\<lambda>c. Inr ex_config),
      assertFilesMeetConfig = (\<lambda>fs c. Inr ()),
      getTypeFromFileName = (\<lambda>n ts. if n = ''a.png'' then Inr ''image'' else Inr ''pdf''),
      generateKey = (\<lambda>k f h. ''key'' @ String_nat k @ ''-'' @ name f),
      generateSignedURL = (\<lambda>k u key ttl d. u @ ''?expires='' @ String_nat k),
      verifySignature = (\<lambda>payload sig key. sig = Some ''hmac-sha256=good''),
      originAndPathname = Some,
      httpClient = (\<lambda>r. Inr \<lparr>status_r = 200, chunks_r = []\<rparr>),
      schedule = [1, 0],
      extractRouterConfig = (\<lambda>r. Inr (map (\<lambda>(slug, up). (slug, ex_config)) r)),
      formatError = (\<lambda>e r. message e),
      getStatusCodeFromError =
        (\<lambda>e. case code e of BAD_REQUEST \<Rightarrow> 400 | NOT_FOUND \<Rightarrow> 404
              | INTERNAL_SERVER_ERROR \<Rightarrow> 500 | INVALID_SERVER_CONFIG \<Rightarrow> 500)\<rparr>"

definition ex_opts :: "file_override list option \<Rightarrow> unit FileUploadData_ext RouteHandlerOptions" where
  "ex_opts ovs = \<lparr>router = [(''docs'', ex_route ovs)], handleDaemonPromise = None\<rparr>"

definition ex_upload :: request where
  "ex_upload =
     \<lparr>headers = [(''x-uploadthing-package'', ''@uploadthing/react'')],
      params = [(''slug'', ''docs''), (''actionType'', ''upload'')],
      url = ''https://app.example/api/uploadthing'',
      bodyText = Some ''files: a.png, b.pdf''\<rparr>"

definition w0 :: world where
  "w0 = \<lparr>trace = [], reads = 0\<rparr>"

definition ex_callback :: "string \<Rightarrow> request" where
  "ex_callback sig =
     \<lparr>headers = [(''uploadthing-hook'', ''callback''), (''x-uploadthing-signature'', sig)],
      params = [(''slug'', ''docs'')],
      url = ''https://app.example/api/uploadthing'',
      bodyText = Some ''status: uploaded''\<rparr>"

definition ex_outdated :: request where
  "ex_outdated = ex_upload\<lparr>headers := [(''x-uploadthing-version'', ''6.4.0'')]\<rparr>"

definition ex_neither :: request where
  "ex_neither = ex_upload\<lparr>params := [(''slug'', ''docs'')]\<rparr>"

definition ex_bogus :: request where
  "ex_bogus = ex_upload\<lparr>headers := [(''uploadthing-hook'', ''bogus'')]\<rparr>"

definition ex_constructor :: request where
  "ex_constructor = ex_upload\<lparr>params := [(''slug'', ''constructor'')]\<rparr>"

section \<open>Running effects\<close>

text \<open>An exit and its continuation: how \<open>andThen\<close> goes on from the exit of its first effect.\<close>

fun continue :: "(failure + 'a) \<times> world \<Rightarrow> ('a \<Rightarrow> 'b effect) \<Rightarrow> (failure + 'b) \<times> world" where
  "continue (Inl e, w) f = (Inl e, w)"
| "continue (Inr x, w) f = f x w"

declare String_nat.simps [simp del]

lemma andThen_run: "andThen m f w = continue (m w) f"
  by (cases "m w") (auto simp: andThen_def split: sum.splits)

lemma succeed_run: "succeed x w = (Inr x, w)"
  by (simp add: succeed_def)

lemma fail_run: "fail e w = (Inl e, w)"
  by (simp add: fail_def)

lemma die_run: "die m w = (Inl (Die m), w)"
  by (simp add: die_def fail_def)

lemma emit_run: "emit ev w = (Inr (), w\<lparr>trace := trace w @ [ev]\<rparr>)"
  by (simp add: emit_def)

lemma ambient_run: "ambient w = (Inr (reads w), w\<lparr>reads := Suc (reads w)\<rparr>)"
  by (simp add: ambient_def)

lemma tapError_run:
  "tapError m f w = (case m w of
       (Inl e, w') \<Rightarrow> (case f e w' of (Inl e', w'') \<Rightarrow> (Inl e', w'') | (Inr _, w'') \<Rightarrow> (Inl e, w''))
     | (Inr x, w') \<Rightarrow> (Inr x, w'))"
  by (simp add: tapError_def)

lemma ignoreLogged_run:
  "ignoreLogged m w = (case m w of
       (Inl e, w') \<Rightarrow> logDebug ''An error was silently ignored because it is not anticipated to be useful'' w'
     | (Inr x, w') \<Rightarrow> (Inr (), w'))"
  by (simp add: ignoreLogged_def)

lemma forkDaemon_run: "forkDaemon fb m w = (Inr fb, snd (m w))"
  by (simp add: forkDaemon_def split: prod.splits)

lemma continue_InrD:
  assumes "continue r f = (Inr y, w')"
  shows "\<exists>x w1. r = (Inr x, w1) \<and> f x w1 = (Inr y, w')"
proof (cases r)
  case (Pair a w1)
  with assms show ?thesis
    by (cases a) simp_all
qed

lemmas run_simps = andThen_run succeed_run fail_run die_run emit_run ambient_run
  tapError_run ignoreLogged_run forkDaemon_run logDebug_def logInfo_def logWarning_def logError_def
  tryPromise_def fromConfig_def Date_now_def tap_def

lemmas ex_defs = ex_env_def ex_upload_def ex_outdated_def ex_neither_def ex_bogus_def ex_constructor_def ex_callback_def ex_route_def ex_opts_def ex_overrides_def
  ex_payload_def ex_file_a_def ex_file_b_def ex_config_def w0_def




section \<open>The request classifier\<close>

subsection \<open>Version mismatch\<close>

lemma POST_gen_version_mismatch:
  assumes "map_of (headers req) ''x-uploadthing-version'' = Some cv"
    and "cv \<noteq> version env"
    and "\<forall>h. map_of (headers req) ''uploadthing-hook'' = Some h \<longrightarrow> h \<in> set (UploadThingHook env)"
  shows "POST_gen env opts be req w =
      (Inl (UTError \<lparr>code = BAD_REQUEST, message = ''Client version mismatch'',
                     cause = Some (''Server version: '' @ version env @ '', Client version: '' @ cv)\<rparr>),
       w\<lparr>trace := trace w @
           [Log Error (''Server version: '' @ version env @ '', Client version: '' @ cv)]\<rparr>)"
  using assms
  by (cases "map_of (headers req) ''uploadthing-hook''")
     (simp_all add: POST_gen_def schemaHeaders_def run_simps Let_def)

text \<open>
  Claim C3, as amended. A POST request whose \<^verbatim>\<open>x-uploadthing-version\<close> header is present
  and differs from the version of the server, and whose hook header the schema accepts,
  fails with a \<^verbatim>\<open>BAD_REQUEST\<close> error. Its message is the fixed text
  \<^verbatim>\<open>Client version mismatch\<close>; its cause, which is also the one line the handler logs,
  contains the version of the server and that of the client. Nothing else happens: the
  response of the route is that error, formatted.
\<close>

theorem version_mismatch_versions_in_cause:
  assumes "map_of (headers req) ''x-uploadthing-version'' = Some cv"
    and "cv \<noteq> version env"
    and "\<forall>h. map_of (headers req) ''uploadthing-hook'' = Some h \<longrightarrow> h \<in> set (UploadThingHook env)"
  shows "\<exists>msg. POST_gen env opts be req w =
            (Inl (UTError \<lparr>code = BAD_REQUEST, message = ''Client version mismatch'', cause = Some msg\<rparr>),
             w\<lparr>trace := trace w @ [Log Error msg]\<rparr>)
          \<and> POST env opts be req w =
            (Inr (HttpServerResponse_json
                    (Formatted (formatError env \<lparr>code = BAD_REQUEST, message = ''Client version mismatch'',
                                                 cause = Some msg\<rparr> (router opts)))
                    (getStatusCodeFromError env \<lparr>code = BAD_REQUEST, message = ''Client version mismatch'',
                                                 cause = Some msg\<rparr>)),
             w\<lparr>trace := trace w @ [Log Error msg]\<rparr>)
          \<and> sublist (version env) msg \<and> sublist cv msg"
proof -
  let ?msg = "''Server version: '' @ version env @ '', Client version: '' @ cv"
  note gen = POST_gen_version_mismatch [OF assms, of opts be w]
  have post: "POST env opts be req w =
      (Inr (HttpServerResponse_json
              (Formatted (formatError env \<lparr>code = BAD_REQUEST, message = ''Client version mismatch'',
                                           cause = Some ?msg\<rparr> (router opts)))
              (getStatusCodeFromError env \<lparr>code = BAD_REQUEST, message = ''Client version mismatch'',
                                           cause = Some ?msg\<rparr>)),
       w\<lparr>trace := trace w @ [Log Error ?msg]\<rparr>)"
    by (simp add: POST_def catchTags_def gen)
  have s1: "sublist (version env) ?msg"
    by (intro sublist_appendI)
  have "sublist cv ((''Server version: '' @ version env @ '', Client version: '') @ cv @ [])"
    by (rule sublist_appendI)
  then have s2: "sublist cv ?msg"
    by simp
  from gen post s1 s2 show ?thesis by blast
qed

theorem version_mismatch_versions_in_cause_witness:
  "\<exists>msg. POST_gen ex_env (ex_opts None) ''express'' ex_outdated w0 =
            (Inl (UTError \<lparr>code = BAD_REQUEST, message = ''Client version mismatch'', cause = Some msg\<rparr>),
             w0\<lparr>trace := trace w0 @ [Log Error msg]\<rparr>)
          \<and> POST ex_env (ex_opts None) ''express'' ex_outdated w0 =
            (Inr (HttpServerResponse_json
                    (Formatted (formatError ex_env \<lparr>code = BAD_REQUEST, message = ''Client version mismatch'',
                                                 cause = Some msg\<rparr> (router (ex_opts None))))
                    (getStatusCodeFromError ex_env \<lparr>code = BAD_REQUEST, message = ''Client version mismatch'',
                                                 cause = Some msg\<rparr>)),
             w0\<lparr>trace := trace w0 @ [Log Error msg]\<rparr>)
          \<and> sublist (version ex_env) msg \<and> sublist ''6.4.0'' msg"
proof -
  have h1: "map_of (headers ex_outdated) ''x-uploadthing-version'' = Some ''6.4.0''"
    by (simp add: ex_defs)
  have h2: "''6.4.0'' \<noteq> version ex_env"
    by (simp add: ex_defs)
  have h3: "\<forall>h. map_of (headers ex_outdated) ''uploadthing-hook'' = Some h
                \<longrightarrow> h \<in> set (UploadThingHook ex_env)"
    by (simp add: ex_defs)
  show ?thesis
    using version_mismatch_versions_in_cause [OF h1 h2 h3] .
qed

text \<open>
  Claim C3 as it is written fails: server 7.0.0, client 6.4.0. The error is the one above and
  neither version occurs in its message.
\<close>

theorem version_mismatch_message_without_versions:
  "fst (POST_gen ex_env (ex_opts None) ''express'' ex_outdated w0) =
     Inl (UTError \<lparr>code = BAD_REQUEST, message = ''Client version mismatch'',
                   cause = Some ''Server version: 7.0.0, Client version: 6.4.0''\<rparr>)
   \<and> \<not> sublist ''7.0.0'' ''Client version mismatch''
   \<and> \<not> sublist ''6.4.0'' ''Client version mismatch''"
proof -
  have "fst (POST_gen ex_env (ex_opts None) ''express'' ex_outdated w0) =
     Inl (UTError \<lparr>code = BAD_REQUEST, message = ''Client version mismatch'',
                   cause = Some ''Server version: 7.0.0, Client version: 6.4.0''\<rparr>)"
    by (simp add: POST_gen_def schemaHeaders_def run_simps Let_def ex_defs)
  moreover have "\<not> sublist ''7.0.0'' ''Client version mismatch''"
    by code_simp
  moreover have "\<not> sublist ''6.4.0'' ''Client version mismatch''"
    by code_simp
  ultimately show ?thesis by simp
qed




subsection \<open>The two actions and the rest\<close>

text \<open>
  Claim C4, as amended. A POST request that passes the header schema, the version check,
  the parameter schema and the lookup of its slug, and whose action type and hook are
  neither \<^verbatim>\<open>upload\<close> without a hook nor \<^verbatim>\<open>callback\<close> without an action type, runs neither
  handler: the matcher falls to its default, and the route answers 200 with the body
  \<^verbatim>\<open>null\<close>, leaving no trace.
\<close>

theorem unmatched_combination_answers_null:
  assumes "schemaHeaders env req w = (Inr (hook, fePackage, version env), w1)"
    and "schemaParams env req w1 = (Inr (slug, actionType), w2)"
    and "map_of (router opts) slug = Some up"
    and "\<not> (actionType = Some ''upload'' \<and> hook = None)"
    and "\<not> (actionType = None \<and> hook = Some ''callback'')"
  shows "POST_gen env opts be req w = (Inr (HttpServerResponse_json Null 200), w)"
proof -
  have w1: "w1 = w"
    using assms(1)
    by (auto simp: schemaHeaders_def run_simps Let_def split: option.splits if_splits)
  have w2: "w2 = w1"
    using assms(2)
    by (auto simp: schemaParams_def run_simps split: option.splits if_splits)
  show ?thesis
    using assms unfolding w1 w2
    by (auto simp: POST_gen_def dispatch_def router_at_def run_simps)
qed

theorem unmatched_combination_answers_null_witness:
  "POST_gen ex_env (ex_opts None) ''express'' ex_neither w0 =
     (Inr (HttpServerResponse_json Null 200), w0)"
proof -
  have h1: "schemaHeaders ex_env ex_neither w0 =
              (Inr (None, ''@uploadthing/react'', version ex_env), w0)"
    by (simp add: schemaHeaders_def run_simps Let_def ex_defs)
  have h2: "schemaParams ex_env ex_neither w0 = (Inr (''docs'', None), w0)"
    by (simp add: schemaParams_def run_simps ex_defs)
  have h3: "map_of (router (ex_opts None)) ''docs'' = Some (ex_route None)"
    by (simp add: ex_defs)
  have h4: "\<not> ((None :: string option) = Some ''upload'' \<and> (None :: string option) = None)"
    by simp
  have h5: "\<not> ((None :: string option) = None \<and> (None :: string option) = Some ''callback'')"
    by simp
  show ?thesis
    using unmatched_combination_answers_null [OF h1 h2 h3 h4 h5] .
qed

text \<open>
  Claim C4 as it is written fails: a POST for the slug \<^verbatim>\<open>docs\<close> with neither an action
  type nor a hook is answered, not refused.
\<close>

theorem neither_action_nor_hook_is_answered:
  "POST ex_env (ex_opts None) ''express'' ex_neither w0 =
     (Inr \<lparr>status = 200, headers_s = [], body_s = Null\<rparr>, w0)"
  by (simp add: POST_def catchTags_def POST_gen_def dispatch_def router_at_def schemaHeaders_def schemaParams_def
      HttpServerResponse_json_def run_simps Let_def ex_defs)

text \<open>
  The earlier revision picks by the hook first, so a callback hook wins over an action
  type, and what is neither a callback nor an upload is the defect \<^verbatim>\<open>Unreachable\<close>.
\<close>

lemma handleRequest_callback_first:
  "handleRequest action (Some ''callback'') cb up w = continue (cb w) (\<lambda>out. succeed (True, out))"
  by (simp add: handleRequest_def run_simps)

lemma handleRequest_unreachable:
  "hook \<noteq> Some ''callback'' \<Longrightarrow> action \<noteq> Some ''upload'' \<Longrightarrow>
   handleRequest action hook cb up w = (Inl (Die ''Unreachable''), w)"
  by (simp add: handleRequest_def run_simps)

text \<open>
  A slug that names an inherited property of the router object passes the lookup: without
  action type and hook it is answered like any other, and as an upload action it ends in
  the defect of the read of \<^verbatim>\<open>_def\<close>.
\<close>

lemma inherited_slug_is_answered:
  "POST ex_env (ex_opts None) ''express'' ex_constructor w0 =
     (Inr \<lparr>status = 200, headers_s = [], body_s = Null\<rparr>, w0)"
  by (simp add: POST_def catchTags_def POST_gen_def dispatch_def router_at_def Object_prototype_def
      schemaHeaders_def schemaParams_def HttpServerResponse_json_def run_simps Let_def ex_defs)

lemma inherited_slug_upload_is_a_defect:
  "fst (POST ex_env (ex_opts None) ''express''
          (ex_upload\<lparr>params := [(''slug'', ''constructor''), (''actionType'', ''upload'')]\<rparr>) w0) =
     Inl (Die ''TypeError: Cannot read properties of undefined (reading 'inputParser')'')"
  by (simp add: POST_def catchTags_def POST_gen_def dispatch_def router_at_def Object_prototype_def
      handleUploadAction_inherited_def schemaBodyJson_def
      schemaHeaders_def schemaParams_def run_simps Let_def ex_defs)

subsection \<open>Development mode and the blocking policy\<close>

text \<open>
  Claim C7, as amended. With development mode on and the policy \<^verbatim>\<open>await\<close>,
  \<^verbatim>\<open>createRequestHandler\<close> returns no router, so no request is served. The route configs
  are extracted before the guard: when they extract, the failure is the
  \<^verbatim>\<open>INVALID_SERVER_CONFIG\<close> error of the guard; when they do not, it is the failure of the
  extraction.
\<close>

theorem await_in_development_is_invalid_config:
  assumes "IsDevelopment env = Inr True"
    and "handleDaemonPromise opts = Some Await"
  shows "(\<exists>e. createRequestHandler env opts be w = (Inl e, w))
       \<and> (\<forall>rc. extractRouterConfig env (router opts) = Inr rc \<longrightarrow>
            createRequestHandler env opts be w =
              (Inl (UTError \<lparr>code = INVALID_SERVER_CONFIG,
                             message = ''handleDaemonPromise: \"await\" is forbidden in development.'',
                             cause = None\<rparr>), w))
       \<and> (\<forall>e. extractRouterConfig env (router opts) = Inl e \<longrightarrow>
            createRequestHandler env opts be w = (Inl e, w))"
  using assms
  by (cases "extractRouterConfig env (router opts)")
     (simp_all add: createRequestHandler_def run_simps Let_def)

theorem await_in_development_is_invalid_config_witness:
  "createRequestHandler (ex_env\<lparr>IsDevelopment := Inr True\<rparr>)
     ((ex_opts None)\<lparr>handleDaemonPromise := Some Await\<rparr>) ''express'' w0 =
   (Inl (UTError \<lparr>code = INVALID_SERVER_CONFIG,
                  message = ''handleDaemonPromise: \"await\" is forbidden in development.'',
                  cause = None\<rparr>), w0)"
proof -
  have h1: "IsDevelopment (ex_env\<lparr>IsDevelopment := Inr True\<rparr>) = Inr True"
    by simp
  have h2: "handleDaemonPromise ((ex_opts None)\<lparr>handleDaemonPromise := Some Await\<rparr>) = Some Await"
    by simp
  have h3: "extractRouterConfig (ex_env\<lparr>IsDevelopment := Inr True\<rparr>)
              (router ((ex_opts None)\<lparr>handleDaemonPromise := Some Await\<rparr>)) = Inr [(''docs'', ex_config)]"
    by (simp add: ex_env_def ex_opts_def)
  show ?thesis
    using await_in_development_is_invalid_config [OF h1 h2, of "''express''" w0] h3 by blast
qed

text \<open>
  Claim C7 as it is written fails: in development mode with \<^verbatim>\<open>await\<close> and a router whose
  configs do not extract, the build fails with the error of the extraction, which is not
  \<^verbatim>\<open>INVALID_SERVER_CONFIG\<close>.
\<close>

theorem await_in_development_with_invalid_route_config:
  "createRequestHandler
     (ex_env\<lparr>IsDevelopment := Inr True,
             extractRouterConfig := (\<lambda>r. Inl (InvalidRouteConfig ''maxFileSize''))\<rparr>)
     ((ex_opts None)\<lparr>handleDaemonPromise := Some Await\<rparr>) ''express'' w0 =
   (Inl (InvalidRouteConfig ''maxFileSize''), w0)
   \<and> InvalidRouteConfig ''maxFileSize'' \<noteq>
       UTError \<lparr>code = INVALID_SERVER_CONFIG,
                message = ''handleDaemonPromise: \"await\" is forbidden in development.'',
                cause = None\<rparr>"
  by (simp add: createRequestHandler_def run_simps Let_def)

text \<open>Out of development mode the same options give a router.\<close>

lemma await_outside_development_builds:
  "\<not> isl (fst (createRequestHandler ex_env ((ex_opts None)\<lparr>handleDaemonPromise := Some Await\<rparr>)
                 ''express'' w0))"
  by (simp add: createRequestHandler_def run_simps Let_def ex_env_def ex_opts_def)

section \<open>The callback reconciler\<close>

lemma handleCallbackRequest_invalid_signature:
  assumes "UTToken env = Inr tok"
    and "bodyText req = Some payload"
    and "\<not> verifySignature env payload (map_of (headers req) ''x-uploadthing-signature'') (apiKey tok)"
  shows "handleCallbackRequest env req up fePackage be w =
           (Inl (UTError \<lparr>code = BAD_REQUEST, message = ''Invalid signature'', cause = None\<rparr>),
            w\<lparr>trace := trace w @ [Log Debug ''Signature verified:'', Log Error ''Invalid signature'']\<rparr>)"
  using assms
  by (simp add: handleCallbackRequest_def run_simps Let_def)

text \<open>
  Claim C5. A callback request whose signature does not verify against the API key fails
  with the \<^verbatim>\<open>BAD_REQUEST\<close> error \<^verbatim>\<open>Invalid signature\<close>. The handler has then logged
  two lines and done nothing else: \<^verbatim>\<open>onUploadComplete\<close> has not been called.
\<close>

theorem invalid_signature_never_runs_resolver:
  assumes "UTToken env = Inr tok"
    and "bodyText req = Some payload"
    and "\<not> verifySignature env payload (map_of (headers req) ''x-uploadthing-signature'') (apiKey tok)"
  shows "handleCallbackRequest env req up fePackage be w =
           (Inl (UTError \<lparr>code = BAD_REQUEST, message = ''Invalid signature'', cause = None\<rparr>),
            w\<lparr>trace := trace w @ [Log Debug ''Signature verified:'', Log Error ''Invalid signature'']\<rparr>)
       \<and> ResolverCalled \<notin> set (drop (length (trace w))
                                  (trace (snd (handleCallbackRequest env req up fePackage be w))))"
  by (simp add: handleCallbackRequest_invalid_signature [OF assms])

theorem invalid_signature_never_runs_resolver_witness:
  "handleCallbackRequest ex_env (ex_callback ''hmac-sha256=forged'') (ex_route None) ''unknown'' ''express'' w0 =
           (Inl (UTError \<lparr>code = BAD_REQUEST, message = ''Invalid signature'', cause = None\<rparr>),
            w0\<lparr>trace := trace w0 @ [Log Debug ''Signature verified:'', Log Error ''Invalid signature'']\<rparr>)
       \<and> ResolverCalled \<notin> set (drop (length (trace w0))
            (trace (snd (handleCallbackRequest ex_env (ex_callback ''hmac-sha256=forged'') (ex_route None)
                           ''unknown'' ''express'' w0))))"
proof -
  have h1: "UTToken ex_env = Inr \<lparr>apiKey = ''sk_live_1'', appId = ''app1''\<rparr>"
    by (simp add: ex_defs)
  have h2: "bodyText (ex_callback ''hmac-sha256=forged'') = Some ''status: uploaded''"
    by (simp add: ex_defs)
  have h3: "\<not> verifySignature ex_env ''status: uploaded''
               (map_of (headers (ex_callback ''hmac-sha256=forged'')) ''x-uploadthing-signature'')
               (apiKey \<lparr>apiKey = ''sk_live_1'', appId = ''app1''\<rparr>)"
    by (simp add: ex_defs)
  show ?thesis
    using invalid_signature_never_runs_resolver [OF h1 h2 h3] .
qed

text \<open>Through the route, the response is that error, formatted.\<close>

lemma invalid_signature_response:
  assumes "schemaHeaders env req w = (Inr (Some ''callback'', fePackage, version env), w)"
    and "schemaParams env req w = (Inr (slug, None), w)"
    and "map_of (router opts) slug = Some up"
    and "UTToken env = Inr tok"
    and "bodyText req = Some payload"
    and "\<not> verifySignature env payload (map_of (headers req) ''x-uploadthing-signature'') (apiKey tok)"
  shows "POST env opts be req w =
           (Inr (HttpServerResponse_json
                   (Formatted (formatError env \<lparr>code = BAD_REQUEST, message = ''Invalid signature'',
                                                cause = None\<rparr> (router opts)))
                   (getStatusCodeFromError env \<lparr>code = BAD_REQUEST, message = ''Invalid signature'',
                                                cause = None\<rparr>)),
            w\<lparr>trace := trace w @ [Log Debug ''Signature verified:'', Log Error ''Invalid signature'']\<rparr>)"
  using assms(1-3)
  by (simp add: POST_def catchTags_def POST_gen_def dispatch_def router_at_def run_simps
      handleCallbackRequest_invalid_signature [OF assms(4-6)])

text \<open>With a signature that verifies, the resolver is called and its result sent.\<close>

lemma valid_signature_runs_resolver:
  "filter (\<lambda>ev. ev = ResolverCalled \<or> outbound ev)
     (trace (snd (handleCallbackRequest ex_env (ex_callback ''hmac-sha256=good'') (ex_route None)
                    ''unknown'' ''express'' w0))) =
   [ResolverCalled,
    HttpSent \<lparr>url_r = ''https://ingest.example/callback-result'',
              urlParams_r = [],
              headers_r = [(''x-uploadthing-api-key'', ''sk_live_1''),
                           (''x-uploadthing-version'', ''7.0.0''),
                           (''x-uploadthing-be-adapter'', ''express''),
                           (''x-uploadthing-fe-package'', ''unknown'')],
              body_r = CallbackResultBody ''key0'' None\<rparr>]"
  by (simp add: handleCallbackRequest_def callbackDaemon_def schemaBodyJson_def schemaBodyJsonScoped_def
      filterStatusOk_def execute_def run_simps Let_def ex_defs)

section \<open>The upload orchestrator\<close>

subsection \<open>The length of the overrides\<close>

lemma runRouteMiddleware_length_mismatch:
  assumes "middleware up args (input json) (files json) = Inr md"
    and "UTFiles md = Some ovs"
    and "length ovs \<noteq> length (files json)"
  shows "runRouteMiddleware clk args json up w =
     (Inl (UTError \<lparr>code = BAD_REQUEST,
                    message = ''Files override must have the same length as files'',
                    cause = Some (''Expected files override to have the same length as original files, got ''
                      @ String_nat (length ovs) @ '' but expected ''
                      @ String_nat (length (files json)))\<rparr>),
      w\<lparr>trace := trace w @ [Log Debug ''Running middleware'', MiddlewareCalled,
          Log Error (''Expected files override to have the same length as original files, got ''
                      @ String_nat (length ovs) @ '' but expected ''
                      @ String_nat (length (files json)))]\<rparr>)"
  using assms
  by (simp add: runRouteMiddleware_def run_simps Let_def)

text \<open>
  Claim C2. When the middleware returns a \<^verbatim>\<open>[UTFiles]\<close> array whose length is not the
  number of files of the payload, the upload action fails with a \<^verbatim>\<open>BAD_REQUEST\<close> error.
  Up to there the handler has logged, parsed the input and called the middleware: no key
  and no URL has been generated and no request has been sent.
\<close>

theorem override_length_mismatch_no_outbound_call:
  assumes "bodyText req = Some t"
    and "decodeUploadActionPayload env t = Inr json"
    and "inputParser up (input json) = Inr parsedInput"
    and "middleware up (MiddlewareArguments env) parsedInput (files json) = Inr md"
    and "UTFiles md = Some ovs"
    and "length ovs \<noteq> length (files json)"
  shows "\<exists>msg. handleUploadAction env req up fePackage be slug w =
           (Inl (UTError \<lparr>code = BAD_REQUEST,
                          message = ''Files override must have the same length as files'',
                          cause = Some msg\<rparr>),
            w\<lparr>trace := trace w @
                [Log Debug ''Handling upload request with input:'',
                 Log Debug ''Parsing user input'',
                 InputParserCalled,
                 Log Debug ''Input parsed successfully'',
                 Log Debug ''Running middleware'',
                 MiddlewareCalled,
                 Log Error msg]\<rparr>)
         \<and> filter outbound (trace (snd (handleUploadAction env req up fePackage be slug w)))
             = filter outbound (trace w)"
proof -
  let ?json = "\<lparr>files = files json, input = parsedInput\<rparr>"
  let ?msg = "''Expected files override to have the same length as original files, got ''
                      @ String_nat (length ovs) @ '' but expected ''
                      @ String_nat (length (files json))"
  have mw: "middleware up (MiddlewareArguments env) (input ?json) (files ?json) = Inr md"
    using assms(4) by simp
  have len: "length ovs \<noteq> length (files ?json)"
    using assms(6) by simp
  note rm = runRouteMiddleware_length_mismatch [OF mw assms(5) len]
  have "handleUploadAction env req up fePackage be slug w =
           (Inl (UTError \<lparr>code = BAD_REQUEST,
                          message = ''Files override must have the same length as files'',
                          cause = Some ?msg\<rparr>),
            w\<lparr>trace := trace w @
                [Log Debug ''Handling upload request with input:'',
                 Log Debug ''Parsing user input'',
                 InputParserCalled,
                 Log Debug ''Input parsed successfully'',
                 Log Debug ''Running middleware'',
                 MiddlewareCalled,
                 Log Error ?msg]\<rparr>)"
    using assms(1-3)
    by (simp add: handleUploadAction_def schemaBodyJson_def run_simps rm)
  then show ?thesis
    by simp
qed

theorem override_length_mismatch_no_outbound_call_witness:
  "\<exists>msg. handleUploadAction ex_env ex_upload (ex_route (Some [])) ''react'' ''express'' ''docs'' w0 =
           (Inl (UTError \<lparr>code = BAD_REQUEST,
                          message = ''Files override must have the same length as files'',
                          cause = Some msg\<rparr>),
            w0\<lparr>trace := trace w0 @
                [Log Debug ''Handling upload request with input:'',
                 Log Debug ''Parsing user input'',
                 InputParserCalled,
                 Log Debug ''Input parsed successfully'',
                 Log Debug ''Running middleware'',
                 MiddlewareCalled,
                 Log Error msg]\<rparr>)
         \<and> filter outbound
              (trace (snd (handleUploadAction ex_env ex_upload (ex_route (Some [])) ''react'' ''express''
                             ''docs'' w0)))
             = filter outbound (trace w0)"
proof -
  have h1: "bodyText ex_upload = Some ''files: a.png, b.pdf''"
    by (simp add: ex_defs)
  have h2: "decodeUploadActionPayload ex_env ''files: a.png, b.pdf'' = Inr ex_payload"
    by (simp add: ex_env_def)
  have h3: "inputParser (ex_route (Some [])) (input ex_payload) = Inr ''null''"
    by (simp add: ex_route_def ex_payload_def)
  have h4: "middleware (ex_route (Some [])) (MiddlewareArguments ex_env) ''null'' (files ex_payload) =
              Inr \<lparr>UTFiles = Some [], userData = ''{}''\<rparr>"
    by (simp add: ex_route_def)
  have h5: "UTFiles \<lparr>UTFiles = Some [], userData = ''{}''\<rparr> = Some []"
    by simp
  have h6: "length ([] :: file_override list) \<noteq> length (files ex_payload)"
    by (simp add: ex_payload_def)
  show ?thesis
    using override_length_mismatch_no_outbound_call [OF h1 h2 h3 h4 h5 h6] .
qed

subsection \<open>The reconciliation of the files with the overrides\<close>

lemma reconcile_run:
  "reconcile clk md file idx w =
     (Inr \<lparr>name = (case Option.bind (UTFiles_at md idx) name_o of Some n \<Rightarrow> n | None \<Rightarrow> name file),
           size_f = size_f file,
           type_f = type_f file,
           customId = Option.bind (UTFiles_at md idx) customId_o,
           lastModified = (case Option.bind (UTFiles_at md idx) lastModified_o of
                             Some l \<Rightarrow> l | None \<Rightarrow> clk (reads w))\<rparr>,
      w\<lparr>trace := trace w @
            (if (\<exists>t. UTFiles_at md idx = Some t \<and> size_o t \<noteq> Some (size_f file))
             then [Log Warning ''File size mismatch. Reverting to original size''] else []),
        reads := reads w +
            (if Option.bind (UTFiles_at md idx) lastModified_o = None then 1 else 0)\<rparr>)"
  by (cases "UTFiles_at md idx")
     (auto simp: reconcile_def run_simps Let_def split: option.splits)

lemma forEachFrom_reconcile:
  fixes md :: metadata and clk :: "nat \<Rightarrow> int"
  defines "absent \<equiv> \<lambda>j. Option.bind (UTFiles_at md j) lastModified_o = None"
  shows "\<exists>fs ws. forEachFrom i xs (reconcile clk md) w =
            (Inr fs, w\<lparr>trace := trace w @ ws,
                       reads := reads w + length (filter absent [i..<i + length xs])\<rparr>)
     \<and> length fs = length xs
     \<and> set ws \<subseteq> {Log Warning ''File size mismatch. Reverting to original size''}
     \<and> (\<forall>j<length xs.
           size_f (fs ! j) = size_f (xs ! j)
         \<and> type_f (fs ! j) = type_f (xs ! j)
         \<and> name (fs ! j) = (case Option.bind (UTFiles_at md (i + j)) name_o of
                              Some n \<Rightarrow> n | None \<Rightarrow> name (xs ! j))
         \<and> customId (fs ! j) = Option.bind (UTFiles_at md (i + j)) customId_o
         \<and> lastModified (fs ! j) = (case Option.bind (UTFiles_at md (i + j)) lastModified_o of
                                      Some l \<Rightarrow> l
                                    | None \<Rightarrow> clk (reads w + length (filter absent [i..<i + j])))
         \<and> ((\<exists>t. UTFiles_at md (i + j) = Some t \<and> size_o t \<noteq> Some (size_f (xs ! j)))
              \<longrightarrow> Log Warning ''File size mismatch. Reverting to original size'' \<in> set ws))"
proof (induction xs arbitrary: i w)
  case Nil
  show ?case
    by (intro exI [of _ "[]"]) (simp add: run_simps)
next
  case (Cons x xs)
  let ?warn = "Log Warning ''File size mismatch. Reverting to original size''"
  let ?a = "if (\<exists>t. UTFiles_at md i = Some t \<and> size_o t \<noteq> Some (size_f x)) then [?warn] else []"
  let ?w1 = "w\<lparr>trace := trace w @ ?a, reads := reads w + (if absent i then 1 else 0)\<rparr>"
  define y :: file_with_custom_id where
    "y = \<lparr>name = (case Option.bind (UTFiles_at md i) name_o of Some n \<Rightarrow> n | None \<Rightarrow> name x),
          size_f = size_f x,
          type_f = type_f x,
          customId = Option.bind (UTFiles_at md i) customId_o,
          lastModified = (case Option.bind (UTFiles_at md i) lastModified_o of
                            Some l \<Rightarrow> l | None \<Rightarrow> clk (reads w))\<rparr>"
  have y: "reconcile clk md x i w = (Inr y, ?w1)"
    by (simp add: reconcile_run y_def absent_def)
  have y_size: "size_f y = size_f x" and y_type: "type_f y = type_f x"
    and y_name: "name y = (case Option.bind (UTFiles_at md i) name_o of Some n \<Rightarrow> n | None \<Rightarrow> name x)"
    and y_id: "customId y = Option.bind (UTFiles_at md i) customId_o"
    and y_lm: "lastModified y = (case Option.bind (UTFiles_at md i) lastModified_o of
                                   Some l \<Rightarrow> l | None \<Rightarrow> clk (reads w))"
    by (simp_all add: y_def)
  from Cons.IH [of "Suc i" ?w1] obtain fs ws where
    run: "forEachFrom (Suc i) xs (reconcile clk md) ?w1 =
            (Inr fs, ?w1\<lparr>trace := trace ?w1 @ ws,
                         reads := reads ?w1 + length (filter absent [Suc i..<Suc i + length xs])\<rparr>)"
    and len: "length fs = length xs"
    and ws: "set ws \<subseteq> {?warn}"
    and el: "\<forall>j<length xs.
           size_f (fs ! j) = size_f (xs ! j)
         \<and> type_f (fs ! j) = type_f (xs ! j)
         \<and> name (fs ! j) = (case Option.bind (UTFiles_at md (Suc i + j)) name_o of
                              Some n \<Rightarrow> n | None \<Rightarrow> name (xs ! j))
         \<and> customId (fs ! j) = Option.bind (UTFiles_at md (Suc i + j)) customId_o
         \<and> lastModified (fs ! j) = (case Option.bind (UTFiles_at md (Suc i + j)) lastModified_o of
                                      Some l \<Rightarrow> l
                                    | None \<Rightarrow> clk (reads ?w1 + length (filter absent [Suc i..<Suc i + j])))
         \<and> ((\<exists>t. UTFiles_at md (Suc i + j) = Some t \<and> size_o t \<noteq> Some (size_f (xs ! j)))
              \<longrightarrow> ?warn \<in> set ws)"
    by blast
  have upt: "\<And>n. [i..<i + Suc n] = i # [Suc i..<Suc i + n]"
    by (simp add: upt_conv_Cons del: upt_Suc)
  have cnt: "\<And>n. length (filter absent [i..<i + Suc n]) =
               (if absent i then 1 else 0) + length (filter absent [Suc i..<Suc i + n])"
    unfolding upt by simp
  have run': "forEachFrom i (x # xs) (reconcile clk md) w =
      (Inr (y # fs), w\<lparr>trace := trace w @ (?a @ ws),
                        reads := reads w + length (filter absent [i..<i + length (x # xs)])\<rparr>)"
    using y run cnt [of "length xs"] by (simp add: run_simps)
  have ws': "set (?a @ ws) \<subseteq> {?warn}"
    using ws by auto
  have el': "\<forall>j<length (x # xs).
           size_f ((y # fs) ! j) = size_f ((x # xs) ! j)
         \<and> type_f ((y # fs) ! j) = type_f ((x # xs) ! j)
         \<and> name ((y # fs) ! j) = (case Option.bind (UTFiles_at md (i + j)) name_o of
                              Some n \<Rightarrow> n | None \<Rightarrow> name ((x # xs) ! j))
         \<and> customId ((y # fs) ! j) = Option.bind (UTFiles_at md (i + j)) customId_o
         \<and> lastModified ((y # fs) ! j) = (case Option.bind (UTFiles_at md (i + j)) lastModified_o of
                                      Some l \<Rightarrow> l
                                    | None \<Rightarrow> clk (reads w + length (filter absent [i..<i + j])))
         \<and> ((\<exists>t. UTFiles_at md (i + j) = Some t \<and> size_o t \<noteq> Some (size_f ((x # xs) ! j)))
              \<longrightarrow> ?warn \<in> set (?a @ ws))"
  proof (intro allI impI)
    fix j assume j: "j < length (x # xs)"
    show "size_f ((y # fs) ! j) = size_f ((x # xs) ! j)
         \<and> type_f ((y # fs) ! j) = type_f ((x # xs) ! j)
         \<and> name ((y # fs) ! j) = (case Option.bind (UTFiles_at md (i + j)) name_o of
                              Some n \<Rightarrow> n | None \<Rightarrow> name ((x # xs) ! j))
         \<and> customId ((y # fs) ! j) = Option.bind (UTFiles_at md (i + j)) customId_o
         \<and> lastModified ((y # fs) ! j) = (case Option.bind (UTFiles_at md (i + j)) lastModified_o of
                                      Some l \<Rightarrow> l
                                    | None \<Rightarrow> clk (reads w + length (filter absent [i..<i + j])))
         \<and> ((\<exists>t. UTFiles_at md (i + j) = Some t \<and> size_o t \<noteq> Some (size_f ((x # xs) ! j)))
              \<longrightarrow> ?warn \<in> set (?a @ ws))"
    proof (cases j)
      case 0
      show ?thesis
        unfolding 0 using y_size y_type y_name y_id y_lm by (simp cong: option.case_cong)
    next
      case (Suc k)
      then have k: "k < length xs" using j by simp
      from el k have
        "size_f (fs ! k) = size_f (xs ! k)
         \<and> type_f (fs ! k) = type_f (xs ! k)
         \<and> name (fs ! k) = (case Option.bind (UTFiles_at md (Suc i + k)) name_o of
                              Some n \<Rightarrow> n | None \<Rightarrow> name (xs ! k))
         \<and> customId (fs ! k) = Option.bind (UTFiles_at md (Suc i + k)) customId_o
         \<and> lastModified (fs ! k) = (case Option.bind (UTFiles_at md (Suc i + k)) lastModified_o of
                                      Some l \<Rightarrow> l
                                    | None \<Rightarrow> clk (reads ?w1 + length (filter absent [Suc i..<Suc i + k])))
         \<and> ((\<exists>t. UTFiles_at md (Suc i + k) = Some t \<and> size_o t \<noteq> Some (size_f (xs ! k)))
              \<longrightarrow> ?warn \<in> set ws)"
        by blast
      then show ?thesis
        unfolding Suc using cnt [of k] by (simp add: add.assoc cong: option.case_cong)
    qed
  qed
  from run' len ws' el' show ?case
    by (intro exI [of _ "y # fs"] exI [of _ "?a @ ws"]) simp
qed

lemma runRouteMiddleware_ok:
  fixes md :: metadata
  defines "absent \<equiv> \<lambda>j. Option.bind (UTFiles_at md j) lastModified_o = None"
  assumes mw: "middleware up args (input json) (files json) = Inr md"
    and ok: "\<forall>ovs. UTFiles md = Some ovs \<longrightarrow> length ovs = length (files json)"
  shows "\<exists>fs ws. runRouteMiddleware clk args json up w =
            (Inr (md, fs),
             w\<lparr>trace := trace w @ [Log Debug ''Running middleware'', MiddlewareCalled] @ ws,
               reads := reads w + length (filter absent [0..<length (files json)])\<rparr>)
     \<and> length fs = length (files json)
     \<and> set ws \<subseteq> {Log Warning ''File size mismatch. Reverting to original size''}
     \<and> (\<forall>j<length (files json).
           size_f (fs ! j) = size_f (files json ! j)
         \<and> type_f (fs ! j) = type_f (files json ! j)
         \<and> name (fs ! j) = (case Option.bind (UTFiles_at md j) name_o of
                              Some n \<Rightarrow> n | None \<Rightarrow> name (files json ! j))
         \<and> customId (fs ! j) = Option.bind (UTFiles_at md j) customId_o
         \<and> lastModified (fs ! j) = (case Option.bind (UTFiles_at md j) lastModified_o of
                                      Some l \<Rightarrow> l
                                    | None \<Rightarrow> clk (reads w + length (filter absent [0..<j])))
         \<and> ((\<exists>t. UTFiles_at md j = Some t \<and> size_o t \<noteq> Some (size_f (files json ! j)))
              \<longrightarrow> Log Warning ''File size mismatch. Reverting to original size'' \<in> set ws))"
proof -
  let ?w1 = "w\<lparr>trace := trace w @ [Log Debug ''Running middleware'', MiddlewareCalled]\<rparr>"
  from forEachFrom_reconcile [of 0 "files json" clk md ?w1]
  obtain fs ws where
    run: "forEachFrom 0 (files json) (reconcile clk md) ?w1 =
            (Inr fs, ?w1\<lparr>trace := trace ?w1 @ ws,
                       reads := reads ?w1 + length (filter absent [0..<0 + length (files json)])\<rparr>)"
    and rest: "length fs = length (files json)"
      "set ws \<subseteq> {Log Warning ''File size mismatch. Reverting to original size''}"
      "\<forall>j<length (files json).
           size_f (fs ! j) = size_f (files json ! j)
         \<and> type_f (fs ! j) = type_f (files json ! j)
         \<and> name (fs ! j) = (case Option.bind (UTFiles_at md (0 + j)) name_o of
                              Some n \<Rightarrow> n | None \<Rightarrow> name (files json ! j))
         \<and> customId (fs ! j) = Option.bind (UTFiles_at md (0 + j)) customId_o
         \<and> lastModified (fs ! j) = (case Option.bind (UTFiles_at md (0 + j)) lastModified_o of
                                      Some l \<Rightarrow> l
                                    | None \<Rightarrow> clk (reads ?w1 + length (filter absent [0..<0 + j])))
         \<and> ((\<exists>t. UTFiles_at md (0 + j) = Some t \<and> size_o t \<noteq> Some (size_f (files json ! j)))
              \<longrightarrow> Log Warning ''File size mismatch. Reverting to original size'' \<in> set ws)"
    unfolding absent_def by blast
  have "runRouteMiddleware clk args json up w =
            (Inr (md, fs),
             w\<lparr>trace := trace w @ [Log Debug ''Running middleware'', MiddlewareCalled] @ ws,
               reads := reads w + length (filter absent [0..<length (files json)])\<rparr>)"
    using mw ok run
    by (cases "UTFiles md") (simp_all add: runRouteMiddleware_def forEach_def run_simps)
  with rest show ?thesis
    by (intro exI [of _ fs] exI [of _ ws]) (simp cong: option.case_cong)
qed

lemma runRouteMiddleware_InrD:
  assumes "runRouteMiddleware clk args json up w = (Inr (md, fs), w')"
  shows "middleware up args (input json) (files json) = Inr md
       \<and> (\<forall>ovs. UTFiles md = Some ovs \<longrightarrow> length ovs = length (files json))"
proof (cases "middleware up args (input json) (files json)")
  case (Inl t)
  with assms show ?thesis
    by (simp add: runRouteMiddleware_def run_simps)
next
  case (Inr md')
  show ?thesis
  proof (cases "\<exists>ovs. UTFiles md' = Some ovs \<and> length ovs \<noteq> length (files json)")
    case True
    then obtain ovs where "UTFiles md' = Some ovs" "length ovs \<noteq> length (files json)"
      by blast
    from runRouteMiddleware_length_mismatch [OF Inr this, of clk w] assms
    show ?thesis by simp
  next
    case False
    then have ok: "\<forall>ovs. UTFiles md' = Some ovs \<longrightarrow> length ovs = length (files json)"
      by blast
    from runRouteMiddleware_ok [OF Inr ok, of clk w] assms
    have "md' = md" by auto
    with Inr ok show ?thesis by simp
  qed
qed

lemma forEachFrom_InrD:
  "forEachFrom i xs f w = (Inr ys, w') \<Longrightarrow>
   length ys = length xs \<and> (\<forall>j<length xs. \<exists>wa wb. f (xs ! j) (i + j) wa = (Inr (ys ! j), wb))"
proof (induction xs arbitrary: i w ys w')
  case Nil
  then show ?case by (simp add: run_simps)
next
  case (Cons x xs)
  from Cons.prems obtain y w1 where y: "f x i w = (Inr y, w1)"
    and r1: "continue (forEachFrom (Suc i) xs f w1) (\<lambda>ys. succeed (y # ys)) = (Inr ys, w')"
    by (auto simp: run_simps dest!: continue_InrD)
  from continue_InrD [OF r1] obtain zs w2 where zs: "forEachFrom (Suc i) xs f w1 = (Inr zs, w2)"
    and ys: "ys = y # zs"
    by (auto simp: run_simps)
  from Cons.IH [OF zs] have len: "length zs = length xs"
    and el: "\<forall>j<length xs. \<exists>wa wb. f (xs ! j) (Suc i + j) wa = (Inr (zs ! j), wb)"
    by blast+
  have "\<exists>wa wb. f ((x # xs) ! j) (i + j) wa = (Inr (ys ! j), wb)" if "j < length (x # xs)" for j
  proof (cases j)
    case 0
    with y ys show ?thesis by auto
  next
    case (Suc k)
    with that el ys show ?thesis by auto
  qed
  with len ys show ?case by simp
qed



text \<open>The deployment: what \<^verbatim>\<open>runRouteMiddleware\<close> makes of the two files.\<close>

lemma ex_runRouteMiddleware:
  "runRouteMiddleware clk ''{}'' ex_payload (ex_route (Some ex_overrides)) w0 =
     (Inr (\<lparr>UTFiles = Some ex_overrides, userData = ''{}''\<rparr>,
           [\<lparr>name = ''a.png'', size_f = 1000000, type_f = ''image/png'',
             customId = Some ''id-a'', lastModified = clk 0\<rparr>,
            \<lparr>name = ''renamed.pdf'', size_f = 2000, type_f = ''application/pdf'',
             customId = None, lastModified = 42\<rparr>]),
      \<lparr>trace = [Log Debug ''Running middleware'', MiddlewareCalled,
                Log Warning ''File size mismatch. Reverting to original size'',
                Log Warning ''File size mismatch. Reverting to original size''],
       reads = 1\<rparr>)"
  by (simp add: runRouteMiddleware_def forEach_def reconcile_def UTFiles_at_def run_simps Let_def
      ex_defs)



text \<open>
  Claim C10. A file whose override is missing, or has no \<^verbatim>\<open>lastModified\<close>, gets the
  reading of the clock that \<^verbatim>\<open>Date.now()\<close> takes when the file is reconciled: the next
  reading after those of the files before it. Nothing of the payload's file enters it,
  whatever the client sent with the file. Two runs on the same payload whose clocks differ
  at that reading differ in this field.
\<close>

theorem lastModified_is_clock_reading:
  assumes "runRouteMiddleware clk args json up w = (Inr (md, fs), w')"
    and "i < length (files json)"
    and "Option.bind (UTFiles_at md i) lastModified_o = None"
  shows "lastModified (fs ! i) =
           clk (reads w + length (filter (\<lambda>j. Option.bind (UTFiles_at md j) lastModified_o = None) [0..<i]))
       \<and> (\<forall>clk' fs' w''.
            runRouteMiddleware clk' args json up w = (Inr (md, fs'), w'')
            \<and> clk' (reads w + length (filter (\<lambda>j. Option.bind (UTFiles_at md j) lastModified_o = None) [0..<i]))
                \<noteq> clk (reads w + length (filter (\<lambda>j. Option.bind (UTFiles_at md j) lastModified_o = None) [0..<i]))
            \<longrightarrow> lastModified (fs' ! i) \<noteq> lastModified (fs ! i))"
proof -
  let ?k = "reads w + length (filter (\<lambda>j. Option.bind (UTFiles_at md j) lastModified_o = None) [0..<i])"
  have key: "lastModified (gs ! i) = c ?k"
    if "runRouteMiddleware c args json up w = (Inr (md, gs), v)" for c gs v
  proof -
    from runRouteMiddleware_InrD [OF that]
    have mw: "middleware up args (input json) (files json) = Inr md"
      and ok: "\<forall>ovs. UTFiles md = Some ovs \<longrightarrow> length ovs = length (files json)"
      by blast+
    from runRouteMiddleware_ok [OF mw ok, of c w] that assms(2,3)
    show ?thesis by auto
  qed
  from key [OF assms(1)] key show ?thesis
    by auto
qed

theorem lastModified_is_clock_reading_witness:
  "\<exists>fs gs w' w''.
      runRouteMiddleware (clock ex_env) ''{}'' ex_payload (ex_route (Some ex_overrides)) w0 =
        (Inr (\<lparr>UTFiles = Some ex_overrides, userData = ''{}''\<rparr>, fs), w')
    \<and> runRouteMiddleware (\<lambda>k. 0) ''{}'' ex_payload (ex_route (Some ex_overrides)) w0 =
        (Inr (\<lparr>UTFiles = Some ex_overrides, userData = ''{}''\<rparr>, gs), w'')
    \<and> lastModified_client (files ex_payload ! 0) = Some 1
    \<and> lastModified (fs ! 0) = 1700000000000
    \<and> lastModified (gs ! 0) \<noteq> lastModified (fs ! 0)"
proof -
  let ?md = "\<lparr>UTFiles = Some ex_overrides, userData = ''{}''\<rparr>"
  let ?absent = "\<lambda>j. Option.bind (UTFiles_at ?md j) lastModified_o = None"
  note h1 = ex_runRouteMiddleware [of "clock ex_env"]
  note g1 = ex_runRouteMiddleware [of "\<lambda>k. 0"]
  have h2: "0 < length (files ex_payload)"
    by (simp add: ex_payload_def)
  have h3: "Option.bind (UTFiles_at ?md 0) lastModified_o = None"
    by (simp add: UTFiles_at_def ex_overrides_def)
  have k: "reads w0 + length (filter ?absent [0..<0]) = 0"
    by (simp add: w0_def)
  note inst = lastModified_is_clock_reading [OF h1 h2 h3, unfolded k]
  from inst have a: "lastModified
      ([\<lparr>name = ''a.png'', size_f = 1000000, type_f = ''image/png'',
         customId = Some ''id-a'', lastModified = clock ex_env 0\<rparr>,
        \<lparr>name = ''renamed.pdf'', size_f = 2000, type_f = ''application/pdf'',
         customId = None, lastModified = 42\<rparr>] ! 0) = clock ex_env 0"
    by blast
  have ne: "(\<lambda>k. 0 :: int) 0 \<noteq> clock ex_env 0"
    by (simp add: ex_env_def)
  from inst have b: "\<forall>clk' fs' w''.
      runRouteMiddleware clk' ''{}'' ex_payload (ex_route (Some ex_overrides)) w0 = (Inr (?md, fs'), w'')
      \<and> clk' 0 \<noteq> clock ex_env 0
      \<longrightarrow> lastModified (fs' ! 0) \<noteq> lastModified
      ([\<lparr>name = ''a.png'', size_f = 1000000, type_f = ''image/png'',
         customId = Some ''id-a'', lastModified = clock ex_env 0\<rparr>,
        \<lparr>name = ''renamed.pdf'', size_f = 2000, type_f = ''application/pdf'',
         customId = None, lastModified = 42\<rparr>] ! 0)"
    by blast
  from b [rule_format, OF conjI, OF g1 ne] have c: "lastModified
      ([\<lparr>name = ''a.png'', size_f = 1000000, type_f = ''image/png'',
         customId = Some ''id-a'', lastModified = 0\<rparr>,
        \<lparr>name = ''renamed.pdf'', size_f = 2000, type_f = ''application/pdf'',
         customId = None, lastModified = 42\<rparr>] ! 0) \<noteq> lastModified
      ([\<lparr>name = ''a.png'', size_f = 1000000, type_f = ''image/png'',
         customId = Some ''id-a'', lastModified = clock ex_env 0\<rparr>,
        \<lparr>name = ''renamed.pdf'', size_f = 2000, type_f = ''application/pdf'',
         customId = None, lastModified = 42\<rparr>] ! 0)" .
  have d: "clock ex_env 0 = 1700000000000"
    by (simp add: ex_env_def)
  have e: "lastModified_client (files ex_payload ! 0) = Some 1"
    by (simp add: ex_payload_def ex_file_a_def)
  from h1 g1 a c d e show ?thesis
    by (intro exI conjI) (assumption | simp)+
qed

subsection \<open>Keys and signed URLs, one fiber for each file\<close>


lemma set_completionOrder: "set (completionOrder sched n) = {0..<n}"
  by (auto simp: completionOrder_def)

lemma distinct_completionOrder: "distinct (completionOrder sched n)"
  by (auto simp: completionOrder_def)

lemma runFibers_InrD:
  "runFibers js xs f acc w = (Inr acc', w') \<Longrightarrow> length acc = length xs \<Longrightarrow>
   length acc' = length xs
   \<and> (\<forall>i<length xs.
        (i \<in> set js \<longrightarrow> (\<exists>y wa wb. f (xs ! i) wa = (Inr y, wb) \<and> acc' ! i = Some y))
      \<and> (i \<notin> set js \<longrightarrow> acc' ! i = acc ! i))"
proof (induction js arbitrary: acc w)
  case Nil
  then show ?case by (simp add: run_simps)
next
  case (Cons j js)
  show ?case
  proof (cases "j < length xs")
    case False
    with Cons.prems have "runFibers js xs f acc w = (Inr acc', w')"
      by simp
    from Cons.IH [OF this Cons.prems(2)] False show ?thesis
      by auto
  next
    case True
    with Cons.prems(1) obtain y w1 where y: "f (xs ! j) w = (Inr y, w1)"
      and r: "runFibers js xs f (acc[j := Some y]) w1 = (Inr acc', w')"
      by (auto simp: run_simps dest!: continue_InrD)
    from Cons.prems(2) have "length (acc[j := Some y]) = length xs"
      by simp
    from Cons.IH [OF r this] have len: "length acc' = length xs"
      and el: "\<forall>i<length xs.
        (i \<in> set js \<longrightarrow> (\<exists>y wa wb. f (xs ! i) wa = (Inr y, wb) \<and> acc' ! i = Some y))
      \<and> (i \<notin> set js \<longrightarrow> acc' ! i = (acc[j := Some y]) ! i)"
      by blast+
    have "(i \<in> set (j # js) \<longrightarrow> (\<exists>y wa wb. f (xs ! i) wa = (Inr y, wb) \<and> acc' ! i = Some y))
      \<and> (i \<notin> set (j # js) \<longrightarrow> acc' ! i = acc ! i)" if "i < length xs" for i
    proof (cases "i \<in> set js")
      case True
      with el that show ?thesis by auto
    next
      case False
      with el that have eq: "acc' ! i = (acc[j := Some y]) ! i"
        by blast
      show ?thesis
      proof (cases "i = j")
        case True
        with eq Cons.prems(2) that have "acc' ! i = Some y" by simp
        with y True show ?thesis by auto
      next
        case False
        with eq \<open>i \<notin> set js\<close> show ?thesis by simp
      qed
    qed
    with len show ?thesis by blast
  qed
qed

lemma those_all_Some: "\<forall>i<length xs. xs ! i \<noteq> None \<Longrightarrow> those xs \<noteq> None"
proof (induction xs)
  case Nil
  show ?case by simp
next
  case (Cons x xs)
  from Cons.prems have "x \<noteq> None" and "\<forall>i<length xs. xs ! i \<noteq> None"
    by auto
  with Cons.IH show ?case
    by (auto split: option.splits)
qed

text \<open>When no fiber fails, every index has a result: the defect of the model never arises.\<close>

lemma every_fiber_has_a_result:
  assumes "runFibers (completionOrder sched (length xs)) xs f (replicate (length xs) None) w
             = (Inr acc, w')"
  shows "those acc \<noteq> None"
proof -
  from runFibers_InrD [OF assms] have "length acc = length xs"
    and "\<forall>i<length xs. \<exists>y. acc ! i = Some y"
    by (auto simp: set_completionOrder)
  then show ?thesis
    by (intro those_all_Some) auto
qed








section \<open>The introspection of the route configs\<close>

lemma forEachFrom_pure:
  assumes "\<And>x i w. f x i w = (g x i, w)"
  shows "\<exists>r. \<forall>w. forEachFrom i xs f w = (r, w)"
proof (induction xs arbitrary: i)
  case Nil
  show ?case by (simp add: run_simps)
next
  case (Cons x xs)
  from Cons.IH [of "Suc i"] obtain r where r: "\<And>w. forEachFrom (Suc i) xs f w = (r, w)"
    by blast
  have fx: "\<And>w. f x i w = (g x i, w)"
    by (rule assms)
  show ?case
  proof (cases "g x i")
    case (Inl e)
    then have "\<forall>w. forEachFrom i (x # xs) f w = (Inl e, w)"
      by (simp add: run_simps fx)
    then show ?thesis by blast
  next
    case y: (Inr y)
    show ?thesis
    proof (cases r)
      case (Inl e)
      with y have "\<forall>w. forEachFrom i (x # xs) f w = (Inl e, w)"
        by (simp add: run_simps fx r)
      then show ?thesis by blast
    next
      case (Inr ys)
      with y have "\<forall>w. forEachFrom i (x # xs) f w = (Inr (y # ys), w)"
        by (simp add: run_simps fx r)
      then show ?thesis by blast
    qed
  qed
qed

lemma buildPermissionsInfoHandler_pure:
  "\<exists>r. \<forall>w. buildPermissionsInfoHandler env opts w = (r, w)"
  unfolding buildPermissionsInfoHandler_def forEach_def
proof (rule forEachFrom_pure)
  fix slug :: string and idx :: nat and w
  show "(case map_of (router opts) slug of
           None \<Rightarrow> die ''TypeError: Cannot read properties of undefined''
         | Some route \<Rightarrow>
             (case fillInputRouteConfig env (routerConfig route) of
                Inl e \<Rightarrow> die e
              | Inr config \<Rightarrow> succeed (slug, config))) w =
        (case map_of (router opts) slug of
           None \<Rightarrow> Inl (Die ''TypeError: Cannot read properties of undefined'')
         | Some route \<Rightarrow>
             (case fillInputRouteConfig env (routerConfig route) of
                Inl e \<Rightarrow> Inl (Die e)
              | Inr config \<Rightarrow> Inr (slug, config)), w)"
    by (simp add: run_simps split: option.splits sum.splits)
qed

lemma exits_pure: "(\<And>w. m w = (r, w)) \<Longrightarrow> exits n m w = replicate n r"
  by (induction n arbitrary: w) simp_all

lemma buildPermissionsInfoHandler_InrD:
  assumes "buildPermissionsInfoHandler env opts w = (Inr ps, w')"
  shows "map fst ps = map fst (router opts)
       \<and> (\<forall>j<length ps. \<exists>route. map_of (router opts) (fst (ps ! j)) = Some route
             \<and> fillInputRouteConfig env (routerConfig route) = Inr (snd (ps ! j)))"
proof -
  let ?f = "\<lambda>slug (idx :: nat).
       case map_of (router opts) slug of
         None \<Rightarrow> die ''TypeError: Cannot read properties of undefined''
       | Some route \<Rightarrow>
           (case fillInputRouteConfig env (routerConfig route) of
              Inl e \<Rightarrow> die e
            | Inr config \<Rightarrow> succeed (slug, config))"
  from forEachFrom_InrD [OF assms [unfolded buildPermissionsInfoHandler_def forEach_def]]
  have len: "length ps = length (router opts)"
    and el: "\<forall>j<length (router opts). \<exists>wa wb. ?f (map fst (router opts) ! j) (0 + j) wa = (Inr (ps ! j), wb)"
    by simp_all
  have each: "fst (ps ! j) = fst (router opts ! j)
      \<and> (\<exists>route. map_of (router opts) (fst (ps ! j)) = Some route
             \<and> fillInputRouteConfig env (routerConfig route) = Inr (snd (ps ! j)))"
    if j: "j < length (router opts)" for j
  proof -
    from el j obtain wa wb where "?f (map fst (router opts) ! j) (0 + j) wa = (Inr (ps ! j), wb)"
      by blast
    with j have "?f (fst (router opts ! j)) j wa = (Inr (ps ! j), wb)"
      by (simp cong: option.case_cong sum.case_cong)
    then obtain route config where "map_of (router opts) (fst (router opts ! j)) = Some route"
      and "fillInputRouteConfig env (routerConfig route) = Inr config"
      and "ps ! j = (fst (router opts ! j), config)"
      by (auto simp: run_simps split: option.splits sum.splits)
    then show ?thesis
      by simp
  qed
  have eq: "map fst ps = map fst (router opts)"
    using len each by (intro nth_equalityI) simp_all
  have "\<forall>j<length ps. \<exists>route. map_of (router opts) (fst (ps ! j)) = Some route
             \<and> fillInputRouteConfig env (routerConfig route) = Inr (snd (ps ! j))"
  proof (intro allI impI)
    fix j assume "j < length ps"
    with len have "j < length (router opts)"
      by simp
    from each [OF this]
    show "\<exists>route. map_of (router opts) (fst (ps ! j)) = Some route
             \<and> fillInputRouteConfig env (routerConfig route) = Inr (snd (ps ! j))"
      by blast
  qed
  with eq show ?thesis
    by blast
qed

text \<open>
  Claim C8. However often the introspection handler is called, and whatever has happened
  in between, every call has the exit of the first: \<^verbatim>\<open>buildPermissionsInfoHandler\<close> reads
  only the router and changes nothing, and lists the slugs in the order of the router's
  keys, each with the expansion of its route's config; the \<^verbatim>\<open>GET\<close> route of
  \<^verbatim>\<open>createRequestHandler\<close> answers with the route configs extracted once, when the
  handler was built.
\<close>

theorem introspection_same_on_every_call:
  "exits n (buildPermissionsInfoHandler env opts) w
     = replicate n (fst (buildPermissionsInfoHandler env opts v))
   \<and> (\<forall>ps. fst (buildPermissionsInfoHandler env opts v) = Inr ps \<longrightarrow>
         map fst ps = map fst (router opts)
       \<and> (\<forall>j<length ps. \<exists>route. map_of (router opts) (fst (ps ! j)) = Some route
             \<and> fillInputRouteConfig env (routerConfig route) = Inr (snd (ps ! j))))
   \<and> (\<forall>h w1. createRequestHandler env opts be v = (Inr h, w1) \<longrightarrow>
         (\<exists>rc. extractRouterConfig env (router opts) = Inr rc
            \<and> exits n (get h) w
                = replicate n (Inr \<lparr>status = 200,
                                    headers_s = [(''x-uploadthing-version'', version env)],
                                    body_s = RouterConfig rc\<rparr>)))"
proof -
  from buildPermissionsInfoHandler_pure obtain r where
    r: "\<And>w. buildPermissionsInfoHandler env opts w = (r, w)"
    by blast
  have A: "exits n (buildPermissionsInfoHandler env opts) w
     = replicate n (fst (buildPermissionsInfoHandler env opts v))"
    using exits_pure [of "buildPermissionsInfoHandler env opts" r n w] r by simp
  have B: "\<forall>ps. fst (buildPermissionsInfoHandler env opts v) = Inr ps \<longrightarrow>
         map fst ps = map fst (router opts)
       \<and> (\<forall>j<length ps. \<exists>route. map_of (router opts) (fst (ps ! j)) = Some route
             \<and> fillInputRouteConfig env (routerConfig route) = Inr (snd (ps ! j)))"
    using buildPermissionsInfoHandler_InrD [of env opts v _ v] r by simp
  have C: "\<exists>rc. extractRouterConfig env (router opts) = Inr rc
            \<and> exits n (get h) w
                = replicate n (Inr \<lparr>status = 200,
                                    headers_s = [(''x-uploadthing-version'', version env)],
                                    body_s = RouterConfig rc\<rparr>)"
    if h: "createRequestHandler env opts be v = (Inr h, w1)" for h w1
  proof (cases "extractRouterConfig env (router opts)")
    case (Inl e)
    with h show ?thesis
      by (cases "IsDevelopment env") (simp_all add: createRequestHandler_def run_simps)
  next
    case (Inr rc)
    with h have "get h = appendResponseHeaders env
                           (succeed (HttpServerResponse_json (RouterConfig rc) 200))"
      by (cases "IsDevelopment env")
         (auto simp: createRequestHandler_def run_simps Let_def split: if_splits)
    then have "\<And>v. get h v = (Inr \<lparr>status = 200,
                                    headers_s = [(''x-uploadthing-version'', version env)],
                                    body_s = RouterConfig rc\<rparr>, v)"
      by (simp add: appendResponseHeaders_def HttpServerResponse_json_def run_simps)
    from exits_pure [of "get h", OF this] Inr show ?thesis
      by simp
  qed
  from A B C show ?thesis
    by blast
qed

lemma ex_createRequestHandler:
  "createRequestHandler ex_env (ex_opts None) ''express'' w0 =
     (Inr \<lparr>get = appendResponseHeaders ex_env
                   (succeed (HttpServerResponse_json (RouterConfig [(''docs'', ex_config)]) 200)),
           post = (\<lambda>req. appendResponseHeaders ex_env (POST ex_env (ex_opts None) ''express'' req))\<rparr>,
      w0)"
proof -
  have "IsDevelopment ex_env = Inr False"
    and "extractRouterConfig ex_env (router (ex_opts None)) = Inr [(''docs'', ex_config)]"
    and "handleDaemonPromise (ex_opts None) = None"
    by (simp_all add: ex_env_def ex_opts_def)
  then show ?thesis
    by (simp add: createRequestHandler_def run_simps Let_def)
qed

theorem introspection_same_on_every_call_witness:
  "exits 3 (buildPermissionsInfoHandler ex_env (ex_opts None)) w0
     = [Inr [(''docs'', ex_config)], Inr [(''docs'', ex_config)], Inr [(''docs'', ex_config)]]
   \<and> map fst [(''docs'', ex_config)] = map fst (router (ex_opts None))
   \<and> (\<exists>h w1. createRequestHandler ex_env (ex_opts None) ''express'' w0 = (Inr h, w1)
        \<and> exits 3 (get h) w0
            = replicate 3 (Inr \<lparr>status = 200,
                                headers_s = [(''x-uploadthing-version'', ''7.0.0'')],
                                body_s = RouterConfig [(''docs'', ex_config)]\<rparr>))"
proof -
  note inst = introspection_same_on_every_call
    [where n = 3 and env = ex_env and opts = "ex_opts None" and w = w0 and v = w0 and be = "''express''"]
  have v1: "fst (buildPermissionsInfoHandler ex_env (ex_opts None) w0) = Inr [(''docs'', ex_config)]"
    by (simp add: buildPermissionsInfoHandler_def forEach_def run_simps ex_env_def ex_opts_def
        ex_route_def)
  from inst have a: "exits 3 (buildPermissionsInfoHandler ex_env (ex_opts None)) w0
     = replicate 3 (fst (buildPermissionsInfoHandler ex_env (ex_opts None) w0))"
    by blast
  from inst v1 have b: "map fst [(''docs'', ex_config)] = map fst (router (ex_opts None))"
    by blast
  from inst ex_createRequestHandler obtain rc where
    rc: "extractRouterConfig ex_env (router (ex_opts None)) = Inr rc"
    and c: "exits 3 (get \<lparr>get = appendResponseHeaders ex_env
                   (succeed (HttpServerResponse_json (RouterConfig [(''docs'', ex_config)]) 200)),
           post = (\<lambda>req. appendResponseHeaders ex_env (POST ex_env (ex_opts None) ''express'' req))\<rparr>) w0
            = replicate 3 (Inr \<lparr>status = 200,
                                headers_s = [(''x-uploadthing-version'', version ex_env)],
                                body_s = RouterConfig rc\<rparr>)"
    by blast
  from rc have rc': "rc = [(''docs'', ex_config)]"
    by (simp add: ex_env_def ex_opts_def)
  have v: "version ex_env = ''7.0.0''"
    by (simp add: ex_env_def)
  from a v1 have a': "exits 3 (buildPermissionsInfoHandler ex_env (ex_opts None)) w0
     = [Inr [(''docs'', ex_config)], Inr [(''docs'', ex_config)], Inr [(''docs'', ex_config)]]"
    by (simp add: numeral_3_eq_3)
  from a' b ex_createRequestHandler c [unfolded rc' v] show ?thesis
    by blast
qed

end
